theory Spec2Isabelle
  imports Main "HOL-Library.Word" "HOL-Library.Signed_Division"
begin

unbundle bit_operations_syntax

section \<open>Data model of \<open>CmD3D9RenderWindow.cpp\<close>\<close>

text \<open>
  Machine integers. \<open>UINT32\<close>, \<open>unsigned int\<close> and \<open>DWORD\<close> are 32-bit unsigned,
  \<open>INT32\<close>, \<open>int\<close> and \<open>LONG\<close> are 32-bit two's complement. Both are \<open>32 word\<close>:
  \<open>+\<close> and \<open>-\<close> wrap, \<open><\<close> and \<open>\<le>\<close> compare unsigned, \<open><s\<close> compares signed.
  A conversion between the signed and the unsigned type keeps the bits, so it is the
  identity here.
\<close>

type_synonym u32 = "32 word"
type_synonym i32 = "32 word"

text \<open>
  C's \<open>/\<close> on \<open>int\<close>: the quotient of the signed values, truncated towards zero
  (\<open>sdiv\<close> on \<open>int\<close>).
\<close>

definition int_div :: "i32 \<Rightarrow> i32 \<Rightarrow> i32" where
  "int_div a b = word_of_int (sint a sdiv sint b)"

text \<open>
  A window handle \<open>HWND\<close> and a monitor handle \<open>HMONITOR\<close>; \<open>0\<close> is the null handle.
\<close>

type_synonym hwnd = nat
type_synonym hmonitor = nat

text \<open>Win32 \<open>RECT\<close> (four \<open>LONG\<close>s) and \<open>MONITORINFO\<close>.\<close>

record RECT =
  r_left :: i32
  r_top :: i32
  r_right :: i32
  r_bottom :: i32

record MONITORINFO =
  rcMonitor :: RECT
  rcWork :: RECT

text \<open>Win32 \<open>SetRect(&rc, l, t, r, b)\<close>.\<close>

definition SetRect :: "i32 \<Rightarrow> i32 \<Rightarrow> i32 \<Rightarrow> i32 \<Rightarrow> RECT" where
  "SetRect l t r b = \<lparr>r_left = l, r_top = t, r_right = r, r_bottom = b\<rparr>"

text \<open>Window styles and \<open>SetWindowPos\<close> flags, with their values in the Win32 headers.\<close>

definition WS_VISIBLE :: u32 where "WS_VISIBLE = 0x10000000"
definition WS_CLIPCHILDREN :: u32 where "WS_CLIPCHILDREN = 0x02000000"
definition WS_POPUP :: u32 where "WS_POPUP = 0x80000000"
definition WS_OVERLAPPEDWINDOW :: u32 where "WS_OVERLAPPEDWINDOW = 0x00CF0000"
definition WS_CHILD :: u32 where "WS_CHILD = 0x40000000"
definition WS_OVERLAPPED :: u32 where "WS_OVERLAPPED = 0x00000000"
definition WS_BORDER :: u32 where "WS_BORDER = 0x00800000"
definition WS_CAPTION :: u32 where "WS_CAPTION = 0x00C00000"
definition WS_SYSMENU :: u32 where "WS_SYSMENU = 0x00080000"
definition WS_MINIMIZEBOX :: u32 where "WS_MINIMIZEBOX = 0x00020000"
definition WS_EX_TOPMOST :: u32 where "WS_EX_TOPMOST = 0x00000008"
definition WS_EX_TOOLWINDOW :: u32 where "WS_EX_TOOLWINDOW = 0x00000080"

definition SWP_NOSIZE :: u32 where "SWP_NOSIZE = 0x0001"
definition SWP_NOMOVE :: u32 where "SWP_NOMOVE = 0x0002"
definition SWP_NOZORDER :: u32 where "SWP_NOZORDER = 0x0004"
definition SWP_NOACTIVATE :: u32 where "SWP_NOACTIVATE = 0x0010"
definition SWP_FRAMECHANGED :: u32 where "SWP_FRAMECHANGED = 0x0020"
definition SWP_DRAWFRAME :: u32 where "SWP_DRAWFRAME = SWP_FRAMECHANGED"

definition GWL_STYLE :: i32 where "GWL_STYLE = - 16"

text \<open>The message and the hit-test codes that \<open>startResize\<close> and \<open>startMove\<close> send.\<close>

definition WM_NCLBUTTONDOWN :: u32 where "WM_NCLBUTTONDOWN = 0x00A1"
definition HTCAPTION :: u32 where "HTCAPTION = 2"
definition HTLEFT :: u32 where "HTLEFT = 10"
definition HTRIGHT :: u32 where "HTRIGHT = 11"
definition HTTOP :: u32 where "HTTOP = 12"
definition HTTOPLEFT :: u32 where "HTTOPLEFT = 13"
definition HTTOPRIGHT :: u32 where "HTTOPRIGHT = 14"
definition HTBOTTOM :: u32 where "HTBOTTOM = 15"
definition HTBOTTOMLEFT :: u32 where "HTBOTTOMLEFT = 16"
definition HTBOTTOMRIGHT :: u32 where "HTBOTTOMRIGHT = 17"

text \<open>
  The \<open>hWndInsertAfter\<close> argument of \<open>SetWindowPos\<close>: the source passes \<open>0\<close>
  (\<open>HWND_TOP\<close>), \<open>HWND_TOPMOST\<close> or \<open>HWND_NOTOPMOST\<close>.
\<close>

datatype insert_after = HWND_TOP | HWND_TOPMOST | HWND_NOTOPMOST

text \<open>Direct3D 9 enumerations and bit masks used by the window.\<close>

datatype D3DDEVTYPE = D3DDEVTYPE_HAL | D3DDEVTYPE_REF | D3DDEVTYPE_SW | D3DDEVTYPE_NULLREF

datatype D3DFORMAT =
    D3DFMT_UNKNOWN | D3DFMT_R5G6B5 | D3DFMT_X8R8G8B8
  | D3DFMT_D24S8 | D3DFMT_D24X8 | D3DFMT_D32 | D3DFMT_D16

datatype D3DSWAPEFFECT = D3DSWAPEFFECT_ZERO | D3DSWAPEFFECT_DISCARD

datatype FrameBuffer = FB_FRONT | FB_BACK | FB_AUTO

datatype WindowBorder = WindowBorder_Normal | WindowBorder_None | WindowBorder_Fixed

datatype WindowResizeDirection =
    Left | TopLeft | Top | TopRight | Right | BottomRight | Bottom | BottomLeft

definition D3DPRESENT_INTERVAL_ONE :: u32 where "D3DPRESENT_INTERVAL_ONE = 0x00000001"
definition D3DPRESENT_INTERVAL_TWO :: u32 where "D3DPRESENT_INTERVAL_TWO = 0x00000002"
definition D3DPRESENT_INTERVAL_THREE :: u32 where "D3DPRESENT_INTERVAL_THREE = 0x00000004"
definition D3DPRESENT_INTERVAL_FOUR :: u32 where "D3DPRESENT_INTERVAL_FOUR = 0x00000008"
definition D3DPRESENT_INTERVAL_IMMEDIATE :: u32 where
  "D3DPRESENT_INTERVAL_IMMEDIATE = 0x80000000"

text \<open>
  An \<open>HRESULT\<close> is a signed 32-bit code; \<open>FAILED(hr)\<close> is \<open>hr < 0\<close> and
  \<open>SUCCEEDED(hr)\<close> is \<open>hr \<ge> 0\<close>.
\<close>

type_synonym HRESULT = i32

definition FAILED :: "HRESULT \<Rightarrow> bool" where
  "FAILED hr = (hr <s 0)"

definition SUCCEEDED :: "HRESULT \<Rightarrow> bool" where
  "SUCCEEDED hr = (\<not> hr <s 0)"

text \<open>
  Modelled from the spec: the class \<open>D3D9Device\<close> (\<open>CmD3D9Device.h\<close>) is not among the
  sources. In the spec the device is an external collaborator that the surface does not
  own. The record holds what the window reads from it: its adapter number, its device
  type and its \<open>IDirect3DDevice9\<close>. The calls the window makes on it are recorded as
  calls (below); what the device does in them is the device layer's.
\<close>

record D3D9Device =
  getAdapterNumber :: nat
  getDeviceType :: D3DDEVTYPE
  getD3D9Device :: nat

text \<open>
  Modelled from the spec: the structure \<open>RENDER_WINDOW_DESC\<close> (\<open>CmRenderWindow.h\<close>) is not
  among the sources. The spec lists the configuration inputs at surface creation: the
  desired client width and height, the fullscreen flag, the colour depth, vsync and its
  interval, the multisample request, an explicit or automatic position, an optional
  monitor index, the decoration style, an optional parent window and tool-window flag,
  and an optional native window to adopt. The record holds them under the names
  \<open>initialize_internal\<close> reads (\<open>mDesc.width\<close> is \<open>desc_width\<close>, and so on), typed by
  their uses there. \<open>desc_left\<close>, \<open>desc_top\<close> and \<open>desc_monitorIndex\<close> are \<open>- 1\<close> when
  unspecified. The two entries of \<open>platformSpecific\<close> that the window looks up are given
  parsed: \<open>None\<close> when the key is absent, the handle that \<open>parseUnsignedInt\<close> read
  otherwise.
\<close>

record RENDER_WINDOW_DESC =
  desc_width :: u32
  desc_height :: u32
  desc_left :: i32
  desc_top :: i32
  desc_fullscreen :: bool
  desc_vsync :: bool
  desc_vsyncInterval :: u32
  desc_FSAA :: u32
  desc_depthBuffer :: bool
  desc_colorDepth :: u32
  desc_title :: string
  desc_border :: WindowBorder
  desc_outerDimensions :: bool
  desc_toolWindow :: bool
  desc_monitorIndex :: u32
  desc_parentWindowHandle :: "hwnd option"
  desc_externalWindowHandle :: "hwnd option"

text \<open>
  Modelled from the spec: the declaration of the class \<open>D3D9RenderWindow\<close>
  (\<open>CmD3D9RenderWindow.h\<close>, with its base classes \<open>RenderWindow\<close> and \<open>RenderTarget\<close>) is
  not among the sources. The spec's surface state is the width, height, top, left,
  desired width and height, fullscreen flag, colour depth, vsync and its interval,
  multisample request and hint, depth-buffer flag, switching flag and validity flag,
  and its device binding is the device. The record holds these and the other members
  that the member functions of \<open>CmD3D9RenderWindow.cpp\<close> read or write, under the names
  used there and typed by their uses there: \<open>mDevice\<close> is a pointer (\<open>None\<close> is \<open>NULL\<close>),
  the position \<open>mTop\<close>, \<open>mLeft\<close> is signed (\<open>INT32\<close>, as the arguments of \<open>move\<close>), the
  sizes are unsigned (\<open>UINT32\<close>, as the arguments of \<open>resize\<close> and \<open>setFullscreen\<close>).
\<close>

record D3D9RenderWindow =
  mDesc :: RENDER_WINDOW_DESC
  mName :: string
  mDevice :: "D3D9Device option"
  mDeviceValid :: bool
  mHWnd :: hwnd
  mIsExternal :: bool
  mIsFullScreen :: bool
  mSwitchingFullscreen :: bool
  mActive :: bool
  mClosed :: bool
  mWidth :: u32
  mHeight :: u32
  mTop :: i32
  mLeft :: i32
  mDesiredWidth :: u32
  mDesiredHeight :: u32
  mStyle :: u32
  mDisplayFrequency :: u32
  mColorDepth :: u32
  mVSync :: bool
  mVSyncInterval :: u32
  mFSAA :: u32
  mFSAAHint :: string
  mFSAAType :: u32
  mFSAAQuality :: u32
  mIsDepthBuffered :: bool
  mHwGamma :: bool

text \<open>\<open>D3DPRESENT_PARAMETERS\<close>; \<open>ZeroMemory\<close> gives \<open>zeroPresentParameters\<close>.\<close>

record D3DPRESENT_PARAMETERS =
  BackBufferWidth :: u32
  BackBufferHeight :: u32
  BackBufferFormat :: D3DFORMAT
  BackBufferCount :: u32
  MultiSampleType :: u32
  MultiSampleQuality :: u32
  SwapEffect :: D3DSWAPEFFECT
  hDeviceWindow :: hwnd
  Windowed :: bool
  EnableAutoDepthStencil :: bool
  AutoDepthStencilFormat :: D3DFORMAT
  FullScreen_RefreshRateInHz :: u32
  PresentationInterval :: u32

definition zeroPresentParameters :: D3DPRESENT_PARAMETERS where
  "zeroPresentParameters =
     \<lparr>BackBufferWidth = 0, BackBufferHeight = 0, BackBufferFormat = D3DFMT_UNKNOWN,
      BackBufferCount = 0, MultiSampleType = 0, MultiSampleQuality = 0,
      SwapEffect = D3DSWAPEFFECT_ZERO, hDeviceWindow = 0, Windowed = False,
      EnableAutoDepthStencil = False, AutoDepthStencilFormat = D3DFMT_UNKNOWN,
      FullScreen_RefreshRateInHz = 0, PresentationInterval = 0\<rparr>"

subsection \<open>The collaborators\<close>

text \<open>
  What the window system, Direct3D and the device layer answer during one call of a
  member function. The window only reads these answers; they are parameters of the model.
  \<^item> \<open>MonitorFromWindow h\<close> is \<open>MonitorFromWindow(h, MONITOR_DEFAULTTONEAREST)\<close> and
    \<open>MonitorFromPoint x y\<close> is \<open>MonitorFromPoint(pt, MONITOR_DEFAULTTOPRIMARY)\<close>;
    \<open>GetMonitorInfo m\<close> is what the structure holds after \<open>memset\<close> and
    \<open>GetMonitorInfo\<close> (a failed query leaves it zeroed).
  \<^item> \<open>GetWindowRect\<close> and \<open>GetClientRect\<close> answer \<open>None\<close> where the Win32 call returns
    \<open>FALSE\<close>; \<open>uninitialisedRECT\<close> is the content of a local \<open>RECT\<close> that nothing has
    written yet.
  \<^item> \<open>GetAdapterCount\<close> and \<open>GetAdapterMonitor\<close> are those of \<open>IDirect3D9\<close>, and
    \<open>CreateWindowEx\<close> is the handle that the window creation returns.
  \<^item> \<open>CheckDeviceFormat adapter devType adapterFormat usage-and-type checkFormat\<close> and
    \<open>CheckDepthStencilMatch\<close> are the capability probes of \<open>IDirect3D9\<close>;
    \<open>PresentationIntervals\<close> is that field of the \<open>D3DCAPS9\<close> which \<open>GetDeviceCaps\<close>
    fills in.
  \<^item> \<open>determineFSAASettings\<close> is \<open>D3D9RenderSystem::determineFSAASettings\<close>, and
    \<open>validate\<close> is \<open>D3D9Device::validate\<close>.
  \<^item> \<open>onCoreThread\<close> says whether the caller is the core thread.
\<close>

record os_env =
  onCoreThread :: bool
  MonitorFromWindow :: "hwnd \<Rightarrow> hmonitor"
  MonitorFromPoint :: "i32 \<Rightarrow> i32 \<Rightarrow> hmonitor"
  GetMonitorInfo :: "hmonitor \<Rightarrow> MONITORINFO"
  GetAdapterCount :: nat
  GetAdapterMonitor :: "nat \<Rightarrow> hmonitor"
  CreateWindowEx :: hwnd
  uninitialisedRECT :: RECT
  AdjustWindowRect :: "RECT \<Rightarrow> u32 \<Rightarrow> bool \<Rightarrow> RECT"
  IsIconic :: "hwnd \<Rightarrow> bool"
  GetWindowRect :: "hwnd \<Rightarrow> RECT option"
  GetClientRect :: "hwnd \<Rightarrow> RECT option"
  CheckDeviceFormat :: "nat \<Rightarrow> D3DDEVTYPE \<Rightarrow> D3DFORMAT \<Rightarrow> D3DFORMAT \<Rightarrow> HRESULT"
  CheckDepthStencilMatch ::
    "nat \<Rightarrow> D3DDEVTYPE \<Rightarrow> D3DFORMAT \<Rightarrow> D3DFORMAT \<Rightarrow> D3DFORMAT \<Rightarrow> HRESULT"
  PresentationIntervals :: "nat \<Rightarrow> D3DDEVTYPE \<Rightarrow> u32"
  determineFSAASettings :: "nat \<Rightarrow> u32 \<Rightarrow> string \<Rightarrow> D3DFORMAT \<Rightarrow> bool \<Rightarrow> u32 \<times> u32"
  validate :: "D3D9Device \<Rightarrow> bool"

text \<open>
  The calls a member function makes on its collaborators, in the order it makes them.
  A function returns the window after the call together with this list.
\<close>

datatype call =
    SetWindowPos hwnd insert_after i32 i32 i32 i32 u32
  | SetWindowLong hwnd i32 u32
  | SetWindowRgn hwnd RECT bool
  | DestroyWindow hwnd
  | RegisterClass
  | CreateWindowEx_call u32 string u32 i32 i32 u32 u32 hwnd
  | SendMessage hwnd u32 u32 u32
  | Input_simulateButtonUp
  | RenderSystem_registerWindow
  | RenderWindow_initialize_internal
  | Device_invalidate D3D9Device
  | Device_present D3D9Device
  | Device_copyContentsToMemory D3D9Device nat FrameBuffer
  | Device_validate D3D9Device
  | Device_detachRenderWindow D3D9Device
  | D3D_CheckDeviceFormat nat D3DDEVTYPE D3DFORMAT D3DFORMAT
  | D3D_CheckDepthStencilMatch nat D3DDEVTYPE D3DFORMAT D3DFORMAT D3DFORMAT
  | D3D_GetDeviceCaps nat D3DDEVTYPE
  | RenderSystem_determineFSAASettings nat u32 string D3DFORMAT bool
  | RenderWindow_windowMovedOrResized
  | RenderWindow_destroy_internal

text \<open>
  How a call can fail: the thread check throws, and a member call through the null
  \<open>mDevice\<close> pointer has no defined result.
\<close>

datatype error = NotCoreThread | NullDevice

type_synonym outcome = "error + (D3D9RenderWindow \<times> call list)"

text \<open>
  Modelled from the spec: the macro \<open>THROW_IF_NOT_CORE_THREAD\<close> (\<open>CmCoreThread.h\<close>) is
  not among the sources. In the spec a call that arrives from another thread fails fast
  with a thread-affinity violation and no state mutation occurs; on the core thread the
  rest of the member function runs.
\<close>

definition THROW_IF_NOT_CORE_THREAD :: "os_env \<Rightarrow> outcome \<Rightarrow> outcome" where
  "THROW_IF_NOT_CORE_THREAD env rest = (if onCoreThread env then rest else Inl NotCoreThread)"

section \<open>The member functions\<close>

subsection \<open>\<open>_adjustWindow\<close> (lines 553-581)\<close>

definition adjustWindow ::
  "os_env \<Rightarrow> D3D9RenderWindow \<Rightarrow> u32 \<Rightarrow> u32 \<Rightarrow> u32 \<Rightarrow> u32 \<times> u32" where
  "adjustWindow env w clientWidth clientHeight style =
     (let rc = AdjustWindowRect env (SetRect 0 0 clientWidth clientHeight) style False;
          winWidth = r_right rc - r_left rc;
          winHeight = r_bottom rc - r_top rc;
          monitorInfo = GetMonitorInfo env (MonitorFromWindow env (mHWnd w));
          maxW = r_right (rcWork monitorInfo) - r_left (rcWork monitorInfo);
          maxH = r_bottom (rcWork monitorInfo) - r_top (rcWork monitorInfo)
      in (if winWidth > maxW then maxW else winWidth,
          if winHeight > maxH then maxH else winHeight))"

subsection \<open>The constructor (lines 51-63)\<close>

text \<open>
  \<open>base\<close> holds what the constructors of \<open>RenderWindow\<close> and \<open>RenderTarget\<close> leave in
  the inherited members; the constructor of \<open>RenderWindow\<close> stores the creation
  parameters.
\<close>

definition D3D9RenderWindow_ctor ::
  "D3D9RenderWindow \<Rightarrow> RENDER_WINDOW_DESC \<Rightarrow> D3D9RenderWindow" where
  "D3D9RenderWindow_ctor base desc =
     base\<lparr>mDesc := desc, mIsDepthBuffered := True, mDevice := None, mIsFullScreen := False,
          mIsExternal := False, mHWnd := 0, mActive := False, mClosed := False,
          mSwitchingFullscreen := False, mDisplayFrequency := 0, mDeviceValid := False\<rparr>"

subsection \<open>\<open>initialize_internal\<close> (lines 68-268)\<close>

text \<open>The loop over the adapters (lines 104-111), over the indices \<open>[0..<count]\<close>.\<close>

fun findAdapterMonitor :: "os_env \<Rightarrow> u32 \<Rightarrow> nat list \<Rightarrow> hmonitor" where
  "findAdapterMonitor env monitorIndex [] = 0"
| "findAdapterMonitor env monitorIndex (i # rest) =
     (if of_nat i = monitorIndex then GetAdapterMonitor env i
      else findAdapterMonitor env monitorIndex rest)"

text \<open>The local variables \<open>left\<close> and \<open>top\<close> (lines 137-164), both \<open>UINT32\<close>.\<close>

definition initialPosition :: "RENDER_WINDOW_DESC \<Rightarrow> MONITORINFO \<Rightarrow> u32 \<times> u32" where
  "initialPosition desc monitorInfo =
     (let winWidth = desc_width desc;
          winHeight = desc_height desc;
          left' = desc_left desc;
          top' = desc_top desc;
          work = rcWork monitorInfo
      in if left' = - 1 \<or> top' = - 1 then
           (let screenw = r_right work - r_left work;
                screenh = r_bottom work - r_top work;
                outerw = (if winWidth <s screenw then winWidth else screenw);
                outerh = (if winHeight <s screenh then winHeight else screenh)
            in ((if left' = - 1 then r_left work + int_div (screenw - outerw) 2
                 else if desc_monitorIndex desc \<noteq> - 1 then left' + r_left work
                 else left'),
                (if top' = - 1 then r_top work + int_div (screenh - outerh) 2
                 else if desc_monitorIndex desc \<noteq> - 1 then top' + r_top work
                 else top')))
         else if desc_monitorIndex desc \<noteq> - 1 then (left' + r_left work, top' + r_top work)
         else (left', top'))"

text \<open>The styles of a windowed window (lines 180-197): \<open>(dwStyle, dwStyleEx)\<close>.\<close>

definition windowedStyle :: "RENDER_WINDOW_DESC \<Rightarrow> hwnd \<Rightarrow> u32 \<Rightarrow> u32 \<Rightarrow> u32 \<times> u32" where
  "windowedStyle desc parentHWnd dwStyle dwStyleEx =
     (let (dwStyle1, dwStyleEx1) =
            (if parentHWnd \<noteq> 0 then
               (if desc_toolWindow desc then (dwStyle, WS_EX_TOOLWINDOW)
                else (dwStyle OR WS_CHILD, dwStyleEx))
             else (dwStyle, dwStyleEx))
      in if parentHWnd = 0 \<or> desc_toolWindow desc then
           (if desc_border desc = WindowBorder_None then (dwStyle1 OR WS_POPUP, dwStyleEx1)
            else if desc_border desc = WindowBorder_Fixed then
              (dwStyle1 OR (WS_OVERLAPPED OR WS_BORDER OR WS_CAPTION OR WS_SYSMENU
                              OR WS_MINIMIZEBOX), dwStyleEx1)
            else (dwStyle1 OR WS_OVERLAPPEDWINDOW, dwStyleEx1))
         else (dwStyle1, dwStyleEx1))"

text \<open>
  The branch that creates a window of the renderer's own (lines 93-238). It returns the
  window and the calls made.
\<close>

definition createOwnWindow ::
  "os_env \<Rightarrow> D3D9RenderWindow \<Rightarrow> hwnd \<Rightarrow> D3D9RenderWindow \<times> call list" where
  "createOwnWindow env w parentHWnd =
     (let desc = mDesc w;
          dwStyle = WS_VISIBLE OR WS_CLIPCHILDREN;
          dwStyleEx = 0;
          hMonitor0 = (if desc_monitorIndex desc \<noteq> - 1
                       then findAdapterMonitor env (desc_monitorIndex desc)
                              [0..<GetAdapterCount env]
                       else 0);
          hMonitor = (if hMonitor0 = 0
                      then MonitorFromPoint env (desc_left desc) (desc_top desc)
                      else hMonitor0);
          monitorInfo = GetMonitorInfo env hMonitor;
          work = rcWork monitorInfo;
          (left', top') = initialPosition desc monitorInfo;
          w1 = w\<lparr>mDesiredWidth := desc_width desc, mWidth := desc_width desc,
                 mDesiredHeight := desc_height desc, mHeight := desc_height desc,
                 mTop := top', mLeft := left'\<rparr>;
          (w2, dwStyle', dwStyleEx', winWidth, winHeight) =
            (if desc_fullscreen desc then
               (w1\<lparr>mTop := r_top (rcMonitor monitorInfo),
                    mLeft := r_left (rcMonitor monitorInfo)\<rparr>,
                dwStyle OR WS_POPUP, dwStyleEx OR WS_EX_TOPMOST,
                desc_width desc, desc_height desc)
             else
               (let (dwStyle1, dwStyleEx1) = windowedStyle desc parentHWnd dwStyle dwStyleEx;
                    (winWidth1, winHeight1) =
                       adjustWindow env w1 (desc_width desc) (desc_height desc) dwStyle1
                in if \<not> desc_outerDimensions desc then
                     (let rc = AdjustWindowRect env (SetRect 0 0 (mWidth w1) (mHeight w1))
                                 dwStyle1 False;
                          w3 = w1\<lparr>mWidth := r_right rc - r_left rc,
                                  mHeight := r_bottom rc - r_top rc\<rparr>;
                          w4 = (if mLeft w3 <s r_left work
                                then w3\<lparr>mLeft := r_left work\<rparr> else w3);
                          w5 = (if mTop w4 <s r_top work
                                then w4\<lparr>mTop := r_top work\<rparr> else w4)
                      in (w5, dwStyle1, dwStyleEx1,
                          (if r_right work - mLeft w5 <s winWidth1
                           then r_right work - mLeft w5 else winWidth1),
                          (if r_bottom work - mTop w5 <s winHeight1
                           then r_bottom work - mTop w5 else winHeight1)))
                   else (w1, dwStyle1, dwStyleEx1, winWidth1, winHeight1)))
      in (w2\<lparr>mIsExternal := False, mHWnd := CreateWindowEx env, mStyle := dwStyle'\<rparr>,
          [RegisterClass,
           CreateWindowEx_call dwStyleEx' (desc_title desc) dwStyle' (mLeft w2) (mTop w2)
             winWidth winHeight parentHWnd]))"

text \<open>
  After the window exists, its position and client size are read back (lines 246-254):
  a \<open>GetWindowRect\<close> or \<open>GetClientRect\<close> that fails leaves the local \<open>rc\<close> as it was.
  \<open>registerWindow\<close> of the render system and \<open>initialize_internal\<close> of the base class
  are recorded as calls.
\<close>

definition initialize_internal :: "os_env \<Rightarrow> D3D9RenderWindow \<Rightarrow> outcome" where
  "initialize_internal env w =
     (let desc = mDesc w;
          w0 = w\<lparr>mFSAAType := 0, mFSAAQuality := 0, mFSAA := desc_FSAA desc,
                 mVSync := desc_vsync desc, mVSyncInterval := desc_vsyncInterval desc\<rparr>;
          parentHWnd = (case desc_parentWindowHandle desc of None \<Rightarrow> 0 | Some h \<Rightarrow> h);
          externalHandle = (case desc_externalWindowHandle desc of None \<Rightarrow> 0 | Some h \<Rightarrow> h);
          (w1, calls) =
            (if externalHandle = 0 then createOwnWindow env w0 parentHWnd
             else (w0\<lparr>mHWnd := externalHandle, mIsExternal := True\<rparr>, []));
          rc1 = (case GetWindowRect env (mHWnd w1) of
                   None \<Rightarrow> uninitialisedRECT env | Some rc \<Rightarrow> rc);
          w2 = w1\<lparr>mTop := r_top rc1, mLeft := r_left rc1\<rparr>;
          rc2 = (case GetClientRect env (mHWnd w2) of None \<Rightarrow> rc1 | Some rc \<Rightarrow> rc);
          w3 = w2\<lparr>mWidth := r_right rc2, mHeight := r_bottom rc2\<rparr>;
          w4 = w3\<lparr>mName := desc_title desc, mIsDepthBuffered := desc_depthBuffer desc,
                  mIsFullScreen := desc_fullscreen desc, mColorDepth := desc_colorDepth desc,
                  mActive := True, mClosed := False\<rparr>
      in Inr (w4, calls @ [RenderSystem_registerWindow, RenderWindow_initialize_internal]))"

subsection \<open>\<open>setFullscreen\<close> (lines 290-360)\<close>

definition setFullscreen ::
  "os_env \<Rightarrow> D3D9RenderWindow \<Rightarrow> bool \<Rightarrow> u32 \<Rightarrow> u32 \<Rightarrow> outcome" where
  "setFullscreen env w fullScreen width height =
     THROW_IF_NOT_CORE_THREAD env
     (if fullScreen \<noteq> mIsFullScreen w \<or> width \<noteq> mWidth w \<or> height \<noteq> mHeight w then
        (let w1 = (if fullScreen \<noteq> mIsFullScreen w
                   then w\<lparr>mSwitchingFullscreen := True\<rparr> else w);
             w2 = w1\<lparr>mStyle := WS_VISIBLE OR WS_CLIPCHILDREN\<rparr>;
             oldFullscreen = mIsFullScreen w2;
             w3 = w2\<lparr>mIsFullScreen := fullScreen,
                     mDesiredWidth := width, mWidth := width,
                     mDesiredHeight := height, mHeight := height\<rparr>;
             (w4, calls) =
               (if fullScreen then
                  (let w5 = w3\<lparr>mStyle := mStyle w3 OR WS_POPUP\<rparr>;
                       monitorInfo = GetMonitorInfo env (MonitorFromWindow env (mHWnd w5));
                       w6 = w5\<lparr>mTop := r_top (rcMonitor monitorInfo),
                               mLeft := r_left (rcMonitor monitorInfo)\<rparr>
                   in if oldFullscreen then
                        (w6, [SetWindowPos (mHWnd w6) HWND_TOPMOST (mLeft w6) (mTop w6)
                                width height SWP_NOACTIVATE])
                      else
                        (w6, [SetWindowPos (mHWnd w6) HWND_TOPMOST (mLeft w6) (mTop w6)
                                width height SWP_NOACTIVATE,
                              SetWindowLong (mHWnd w6) GWL_STYLE (mStyle w6),
                              SetWindowPos (mHWnd w6) HWND_TOP 0 0 0 0
                                (SWP_NOACTIVATE OR SWP_NOMOVE OR SWP_NOSIZE OR SWP_NOZORDER
                                   OR SWP_FRAMECHANGED)]))
                else
                  (let w5 = w3\<lparr>mStyle := mStyle w3 OR WS_OVERLAPPEDWINDOW\<rparr>;
                       (winWidth, winHeight) =
                          adjustWindow env w5 (mWidth w5) (mHeight w5) (mStyle w5)
                   in (w5, [SetWindowLong (mHWnd w5) GWL_STYLE (mStyle w5),
                            SetWindowPos (mHWnd w5) HWND_NOTOPMOST 0 0 winWidth winHeight
                              (SWP_DRAWFRAME OR SWP_FRAMECHANGED OR SWP_NOMOVE
                                 OR SWP_NOACTIVATE)])))
         in case mDevice w4 of
              None \<Rightarrow> Inl NullDevice
            | Some d \<Rightarrow> Inr (w4, calls @ [Device_invalidate d]))
      else Inr (w, []))"

subsection \<open>\<open>move\<close> (lines 375-387) and \<open>resize\<close> (lines 389-404)\<close>

text \<open>\<open>move\<close> passes \<open>top\<close> as the x and \<open>left\<close> as the y of \<open>SetWindowPos\<close>.\<close>

definition move :: "os_env \<Rightarrow> D3D9RenderWindow \<Rightarrow> i32 \<Rightarrow> i32 \<Rightarrow> outcome" where
  "move env w top' left' =
     THROW_IF_NOT_CORE_THREAD env
     (if mHWnd w \<noteq> 0 \<and> \<not> mIsFullScreen w then
        (let w1 = w\<lparr>mLeft := left', mTop := top'\<rparr>
         in Inr (w1, [SetWindowPos (mHWnd w1) HWND_TOP top' left' 0 0
                        (SWP_NOSIZE OR SWP_NOZORDER OR SWP_NOACTIVATE)]))
      else Inr (w, []))"

definition resize :: "os_env \<Rightarrow> D3D9RenderWindow \<Rightarrow> u32 \<Rightarrow> u32 \<Rightarrow> outcome" where
  "resize env w width height =
     THROW_IF_NOT_CORE_THREAD env
     (if mHWnd w \<noteq> 0 \<and> \<not> mIsFullScreen w then
        (let w1 = w\<lparr>mWidth := width, mHeight := height\<rparr>;
             (winWidth, winHeight) = adjustWindow env w1 width height (mStyle w1)
         in Inr (w1, [SetWindowPos (mHWnd w1) HWND_TOP 0 0 winWidth winHeight
                        (SWP_NOMOVE OR SWP_NOZORDER OR SWP_NOACTIVATE)]))
      else Inr (w, []))"

subsection \<open>\<open>swapBuffers\<close> (lines 451-457) and \<open>copyToMemory\<close> (lines 479-484)\<close>

definition swapBuffers :: "os_env \<Rightarrow> D3D9RenderWindow \<Rightarrow> outcome" where
  "swapBuffers env w =
     THROW_IF_NOT_CORE_THREAD env
     (if mDeviceValid w then
        (case mDevice w of
           None \<Rightarrow> Inl NullDevice
         | Some d \<Rightarrow> Inr (w, [Device_present d]))
      else Inr (w, []))"

definition copyToMemory :: "os_env \<Rightarrow> D3D9RenderWindow \<Rightarrow> nat \<Rightarrow> FrameBuffer \<Rightarrow> outcome" where
  "copyToMemory env w dst buffer =
     THROW_IF_NOT_CORE_THREAD env
     (case mDevice w of
        None \<Rightarrow> Inl NullDevice
      | Some d \<Rightarrow> Inr (w, [Device_copyContentsToMemory d dst buffer]))"

subsection \<open>\<open>startResize\<close>, \<open>endResize\<close>, \<open>startMove\<close> and \<open>endMove\<close> (lines 486-535)\<close>

text \<open>
  \<open>SendMessage\<close> returns when the modal move/resize loop has ended; the notifications
  the window receives meanwhile are calls of \<open>_windowMovedOrResized\<close>. Afterwards
  \<open>HACK_SendLMBUpEvent\<close> (lines 46-49) simulates the release of the left mouse button.
\<close>

fun hitTest :: "WindowResizeDirection \<Rightarrow> u32" where
  "hitTest Left = HTLEFT"
| "hitTest TopLeft = HTTOPLEFT"
| "hitTest Top = HTTOP"
| "hitTest TopRight = HTTOPRIGHT"
| "hitTest Right = HTRIGHT"
| "hitTest BottomRight = HTBOTTOMRIGHT"
| "hitTest Bottom = HTBOTTOM"
| "hitTest BottomLeft = HTBOTTOMLEFT"

definition startResize :: "D3D9RenderWindow \<Rightarrow> WindowResizeDirection \<Rightarrow> outcome" where
  "startResize w direction =
     Inr (w, [SendMessage (mHWnd w) WM_NCLBUTTONDOWN (hitTest direction) 0,
              Input_simulateButtonUp])"

definition endResize :: "D3D9RenderWindow \<Rightarrow> outcome" where
  "endResize w = Inr (w, [])"

definition startMove :: "D3D9RenderWindow \<Rightarrow> outcome" where
  "startMove w =
     Inr (w, [SendMessage (mHWnd w) WM_NCLBUTTONDOWN HTCAPTION 0, Input_simulateButtonUp])"

definition endMove :: "D3D9RenderWindow \<Rightarrow> outcome" where
  "endMove w = Inr (w, [])"

subsection \<open>\<open>updateWindowRect\<close> (lines 804-836) and \<open>_windowMovedOrResized\<close> (lines 537-547)\<close>

definition updateWindowRect :: "os_env \<Rightarrow> D3D9RenderWindow \<Rightarrow> D3D9RenderWindow" where
  "updateWindowRect env w =
     (case GetWindowRect env (mHWnd w) of
        None \<Rightarrow> w\<lparr>mTop := 0, mLeft := 0, mWidth := 0, mHeight := 0\<rparr>
      | Some rc \<Rightarrow>
          (let w1 = w\<lparr>mTop := r_top rc, mLeft := r_left rc\<rparr>
           in case GetClientRect env (mHWnd w1) of
                None \<Rightarrow> w1\<lparr>mTop := 0, mLeft := 0, mWidth := 0, mHeight := 0\<rparr>
              | Some rc' \<Rightarrow>
                  w1\<lparr>mWidth := r_right rc' - r_left rc',
                     mHeight := r_bottom rc' - r_top rc'\<rparr>))"

text \<open>
  The call of the base class's \<open>RenderWindow::_windowMovedOrResized\<close> is recorded; the
  base class has no access to the members of \<open>D3D9RenderWindow\<close>.
\<close>

definition windowMovedOrResized :: "os_env \<Rightarrow> D3D9RenderWindow \<Rightarrow> outcome" where
  "windowMovedOrResized env w =
     THROW_IF_NOT_CORE_THREAD env
     (if mHWnd w = 0 \<or> IsIconic env (mHWnd w) then Inr (w, [])
      else Inr (updateWindowRect env w, [RenderWindow_windowMovedOrResized]))"

subsection \<open>\<open>_finishSwitchingFullscreen\<close> (lines 583-627)\<close>

definition finishSwitchingFullscreen :: "os_env \<Rightarrow> D3D9RenderWindow \<Rightarrow> outcome" where
  "finishSwitchingFullscreen env w =
     (let (w1, calls) =
        (if mIsFullScreen w then
           (w, [SetWindowRgn (mHWnd w) (SetRect 0 0 (mWidth w) (mHeight w)) False])
         else
           (let (winWidth, winHeight) =
                  adjustWindow env w (mDesiredWidth w) (mDesiredHeight w) (mStyle w);
                monitorInfo = GetMonitorInfo env (MonitorFromWindow env (mHWnd w));
                screenw = r_right (rcWork monitorInfo) - r_left (rcWork monitorInfo);
                screenh = r_bottom (rcWork monitorInfo) - r_top (rcWork monitorInfo);
                left' = (if winWidth <s screenw then int_div (screenw - winWidth) 2 else 0);
                top' = (if winHeight <s screenh then int_div (screenh - winHeight) 2 else 0);
                calls = [SetWindowPos (mHWnd w) HWND_NOTOPMOST left' top' winWidth winHeight
                           (SWP_DRAWFRAME OR SWP_FRAMECHANGED OR SWP_NOACTIVATE)]
            in if mWidth w \<noteq> mDesiredWidth w \<or> mHeight w \<noteq> mDesiredHeight w
               then (w\<lparr>mWidth := mDesiredWidth w, mHeight := mDesiredHeight w\<rparr>, calls)
               else (w, calls)))
      in Inr (w1\<lparr>mSwitchingFullscreen := False\<rparr>, calls))"

subsection \<open>\<open>_buildPresentParameters\<close> (lines 629-771)\<close>

text \<open>
  The function is \<open>const\<close>: it returns the parameters and the calls it made. Its three
  negotiations are written as functions of their own, in the order of the source:
  \<open>presentationInterval\<close> is the present interval (lines 657-705, with the \<open>switch\<close> of
  lines 662-677 as \<open>vsyncIntervalFormat\<close>), \<open>autoDepthStencilFormat\<close> the depth/stencil
  format (lines 711-743) and \<open>fsaaSettings\<close> the multisample settings (lines 745-755).
  Each member call through \<open>mDevice\<close> fails when the pointer is null; only the read of the
  device type (lines 635-636) is guarded.
\<close>

definition vsyncIntervalFormat :: "u32 \<Rightarrow> u32" where
  "vsyncIntervalFormat n =
     (if n = 2 then D3DPRESENT_INTERVAL_TWO
      else if n = 3 then D3DPRESENT_INTERVAL_THREE
      else if n = 4 then D3DPRESENT_INTERVAL_FOUR
      else D3DPRESENT_INTERVAL_ONE)"

definition presentationInterval ::
  "os_env \<Rightarrow> D3D9RenderWindow \<Rightarrow> D3DDEVTYPE \<Rightarrow> error + (u32 \<times> call list)" where
  "presentationInterval env w devType =
     (if mVSync w then
        (if mIsFullScreen w then
           (let chosen = vsyncIntervalFormat (mVSyncInterval w)
            in case mDevice w of
                 None \<Rightarrow> Inl NullDevice
               | Some d \<Rightarrow>
                   (let caps = PresentationIntervals env (getAdapterNumber d) devType
                    in Inr (if caps AND chosen = 0 then D3DPRESENT_INTERVAL_ONE else chosen,
                            [D3D_GetDeviceCaps (getAdapterNumber d) devType])))
         else Inr (D3DPRESENT_INTERVAL_ONE, []))
      else Inr (D3DPRESENT_INTERVAL_IMMEDIATE, []))"

definition autoDepthStencilFormat ::
  "os_env \<Rightarrow> D3D9RenderWindow \<Rightarrow> D3DDEVTYPE \<Rightarrow> D3DFORMAT \<Rightarrow> error + (D3DFORMAT \<times> call list)"
  where
  "autoDepthStencilFormat env w devType bbFormat =
     (if mColorDepth w > 16 then
        (case mDevice w of
           None \<Rightarrow> Inl NullDevice
         | Some d \<Rightarrow>
             (let a = getAdapterNumber d in
              if FAILED (CheckDeviceFormat env a devType bbFormat D3DFMT_D24S8) then
                (if FAILED (CheckDeviceFormat env a devType bbFormat D3DFMT_D32) then
                   Inr (D3DFMT_D16,
                        [D3D_CheckDeviceFormat a devType bbFormat D3DFMT_D24S8,
                         D3D_CheckDeviceFormat a devType bbFormat D3DFMT_D32])
                 else
                   Inr (D3DFMT_D32,
                        [D3D_CheckDeviceFormat a devType bbFormat D3DFMT_D24S8,
                         D3D_CheckDeviceFormat a devType bbFormat D3DFMT_D32]))
              else
                (if SUCCEEDED (CheckDepthStencilMatch env a devType bbFormat bbFormat
                                 D3DFMT_D24S8) then
                   Inr (D3DFMT_D24S8,
                        [D3D_CheckDeviceFormat a devType bbFormat D3DFMT_D24S8,
                         D3D_CheckDepthStencilMatch a devType bbFormat bbFormat D3DFMT_D24S8])
                 else
                   Inr (D3DFMT_D24X8,
                        [D3D_CheckDeviceFormat a devType bbFormat D3DFMT_D24S8,
                         D3D_CheckDepthStencilMatch a devType bbFormat bbFormat
                           D3DFMT_D24S8]))))
      else Inr (D3DFMT_D16, []))"

definition fsaaSettings ::
  "os_env \<Rightarrow> D3D9RenderWindow \<Rightarrow> D3DFORMAT \<Rightarrow> error + ((u32 \<times> u32) \<times> call list)" where
  "fsaaSettings env w bbFormat =
     (case mDevice w of
        None \<Rightarrow> Inl NullDevice
      | Some d \<Rightarrow>
          (let (fsaaType, fsaaQuality) =
                 determineFSAASettings env (getD3D9Device d) (mFSAA w) (mFSAAHint w)
                   bbFormat (mIsFullScreen w)
           in Inr ((fsaaType, if fsaaQuality = 0 then 0 else fsaaQuality),
                   [RenderSystem_determineFSAASettings (getD3D9Device d) (mFSAA w)
                      (mFSAAHint w) bbFormat (mIsFullScreen w)])))"

definition buildPresentParameters ::
  "os_env \<Rightarrow> D3D9RenderWindow \<Rightarrow> error + (D3DPRESENT_PARAMETERS \<times> call list)" where
  "buildPresentParameters env w =
     (let devType = (case mDevice w of None \<Rightarrow> D3DDEVTYPE_HAL | Some d \<Rightarrow> getDeviceType d);
          p0 = zeroPresentParameters
                 \<lparr>Windowed := \<not> mIsFullScreen w,
                  SwapEffect := D3DSWAPEFFECT_DISCARD,
                  BackBufferCount := (if mVSync w then 2 else 1),
                  EnableAutoDepthStencil := mIsDepthBuffered w,
                  hDeviceWindow := mHWnd w,
                  BackBufferWidth := mWidth w,
                  BackBufferHeight := mHeight w,
                  FullScreen_RefreshRateInHz :=
                    (if mIsFullScreen w then mDisplayFrequency w else 0)\<rparr>;
          p1 = (if BackBufferWidth p0 = 0 then p0\<lparr>BackBufferWidth := 1\<rparr> else p0);
          p2 = (if BackBufferHeight p1 = 0 then p1\<lparr>BackBufferHeight := 1\<rparr> else p1)
      in case presentationInterval env w devType of
           Inl e \<Rightarrow> Inl e
         | Inr (interval, calls1) \<Rightarrow>
             (let p3 = p2\<lparr>PresentationInterval := interval\<rparr>;
                  p4 = p3\<lparr>BackBufferFormat := D3DFMT_R5G6B5\<rparr>;
                  p5 = (if mColorDepth w > 16
                        then p4\<lparr>BackBufferFormat := D3DFMT_X8R8G8B8\<rparr> else p4)
              in case autoDepthStencilFormat env w devType (BackBufferFormat p5) of
                   Inl e \<Rightarrow> Inl e
                 | Inr (depthFormat, calls2) \<Rightarrow>
                     (let p6 = p5\<lparr>AutoDepthStencilFormat := depthFormat\<rparr>
                      in case fsaaSettings env w (BackBufferFormat p6) of
                           Inl e \<Rightarrow> Inl e
                         | Inr ((fsaaType, fsaaQuality), calls3) \<Rightarrow>
                             Inr (p6\<lparr>MultiSampleType := fsaaType,
                                     MultiSampleQuality := fsaaQuality\<rparr>,
                                  calls1 @ calls2 @ calls3))))"

subsection \<open>\<open>_setDevice\<close> (lines 793-797), \<open>_validateDevice\<close> (lines 838-842) and
  \<open>destroy_internal\<close> (lines 270-288)\<close>

definition setDevice :: "D3D9RenderWindow \<Rightarrow> D3D9Device option \<Rightarrow> D3D9RenderWindow" where
  "setDevice w device = w\<lparr>mDevice := device, mDeviceValid := False\<rparr>"

text \<open>\<open>_validateDevice\<close> returns the new \<open>mDeviceValid\<close>.\<close>

definition validateDevice :: "os_env \<Rightarrow> D3D9RenderWindow \<Rightarrow> outcome" where
  "validateDevice env w =
     (case mDevice w of
        None \<Rightarrow> Inl NullDevice
      | Some d \<Rightarrow> Inr (w\<lparr>mDeviceValid := validate env d\<rparr>, [Device_validate d]))"

definition destroy_internal :: "D3D9RenderWindow \<Rightarrow> outcome" where
  "destroy_internal w =
     (let (w1, calls1) =
            (case mDevice w of
               Some d \<Rightarrow> (w\<lparr>mDevice := None\<rparr>, [Device_detachRenderWindow d])
             | None \<Rightarrow> (w, []));
          calls2 = (if mHWnd w1 \<noteq> 0 \<and> \<not> mIsExternal w1 then [DestroyWindow (mHWnd w1)] else []);
          w2 = w1\<lparr>mHWnd := 0, mActive := False, mClosed := True\<rparr>
      in Inr (w2, calls1 @ calls2 @ [RenderWindow_destroy_internal]))"

section \<open>Runs of member-function calls\<close>

text \<open>
  The calls a client, the window system, the render system or the device layer can make
  on a constructed window: every member function of the source that is not \<open>const\<close>,
  and \<open>_buildPresentParameters\<close>. A call that a collaborator makes back into the window
  (the device layer calls \<open>_finishSwitchingFullscreen\<close> and \<open>_buildPresentParameters\<close>
  while it resets, \<open>registerWindow\<close> attaches a device with \<open>_setDevice\<close>) is an
  operation of its own in the run.
\<close>

datatype op =
    Op_initialize_internal
  | Op_setFullscreen bool u32 u32
  | Op_startResize WindowResizeDirection
  | Op_endResize
  | Op_startMove
  | Op_endMove
  | Op_move i32 i32
  | Op_resize u32 u32
  | Op_swapBuffers
  | Op_copyToMemory nat FrameBuffer
  | Op_windowMovedOrResized
  | Op_updateWindowRect
  | Op_finishSwitchingFullscreen
  | Op_buildPresentParameters
  | Op_setDevice "D3D9Device option"
  | Op_validateDevice
  | Op_destroy_internal

fun step :: "os_env \<Rightarrow> D3D9RenderWindow \<Rightarrow> op \<Rightarrow> outcome" where
  "step env w Op_initialize_internal = initialize_internal env w"
| "step env w (Op_setFullscreen fullScreen width height) =
     setFullscreen env w fullScreen width height"
| "step env w (Op_startResize direction) = startResize w direction"
| "step env w Op_endResize = endResize w"
| "step env w Op_startMove = startMove w"
| "step env w Op_endMove = endMove w"
| "step env w (Op_move top' left') = move env w top' left'"
| "step env w (Op_resize width height) = resize env w width height"
| "step env w Op_swapBuffers = swapBuffers env w"
| "step env w (Op_copyToMemory dst buffer) = copyToMemory env w dst buffer"
| "step env w Op_windowMovedOrResized = windowMovedOrResized env w"
| "step env w Op_updateWindowRect = Inr (updateWindowRect env w, [])"
| "step env w Op_finishSwitchingFullscreen = finishSwitchingFullscreen env w"
| "step env w Op_buildPresentParameters =
     (case buildPresentParameters env w of
        Inl e \<Rightarrow> Inl e
      | Inr (presentParams, calls) \<Rightarrow> Inr (w, calls))"
| "step env w (Op_setDevice device) = Inr (setDevice w device, [])"
| "step env w Op_validateDevice = validateDevice env w"
| "step env w Op_destroy_internal = destroy_internal w"

text \<open>
  A run: each operation comes with the answers its collaborators give at that moment.
  The run stops at the first failure.
\<close>

fun run :: "D3D9RenderWindow \<Rightarrow> (os_env \<times> op) list \<Rightarrow> outcome" where
  "run w [] = Inr (w, [])"
| "run w ((env, operation) # rest) =
     (case step env w operation of
        Inl e \<Rightarrow> Inl e
      | Inr (w1, calls1) \<Rightarrow>
          (case run w1 rest of
             Inl e \<Rightarrow> Inl e
           | Inr (w2, calls2) \<Rightarrow> Inr (w2, calls1 @ calls2)))"

text \<open>The explicit requests: the initialisation of the window and \<open>setFullscreen\<close>.\<close>

fun is_explicit_request :: "op \<Rightarrow> bool" where
  "is_explicit_request Op_initialize_internal = True"
| "is_explicit_request (Op_setFullscreen fullScreen width height) = True"
| "is_explicit_request operation = False"

text \<open>The calls that probe a depth/stencil format.\<close>

fun is_format_probe :: "call \<Rightarrow> bool" where
  "is_format_probe (D3D_CheckDeviceFormat a t bb f) = True"
| "is_format_probe (D3D_CheckDepthStencilMatch a t af rf df) = True"
| "is_format_probe c = False"

section \<open>Concrete inputs\<close>

text \<open>
  A desktop of one 1920x1080 monitor at the origin with a 40-pixel task bar, a window
  frame of 8 pixels and a 31-pixel caption, and hardware that accepts every format and
  every present interval.
\<close>

definition exampleDevice :: D3D9Device where
  "exampleDevice = \<lparr>getAdapterNumber = 0, getDeviceType = D3DDEVTYPE_HAL, getD3D9Device = 1\<rparr>"

definition exampleEnv :: os_env where
  "exampleEnv =
     \<lparr>onCoreThread = True,
      MonitorFromWindow = (\<lambda>h. 1),
      MonitorFromPoint = (\<lambda>x y. 1),
      GetMonitorInfo =
        (\<lambda>m. \<lparr>rcMonitor = SetRect 0 0 1920 1080, rcWork = SetRect 0 0 1920 1040\<rparr>),
      GetAdapterCount = 1,
      GetAdapterMonitor = (\<lambda>i. 1),
      CreateWindowEx = 7,
      uninitialisedRECT = SetRect 0 0 0 0,
      AdjustWindowRect =
        (\<lambda>rc style menu.
           SetRect (r_left rc - 8) (r_top rc - 31) (r_right rc + 8) (r_bottom rc + 8)),
      IsIconic = (\<lambda>h. False),
      GetWindowRect = (\<lambda>h. Some (SetRect 552 200 1368 839)),
      GetClientRect = (\<lambda>h. Some (SetRect 0 0 800 600)),
      CheckDeviceFormat = (\<lambda>a t bb f. 0),
      CheckDepthStencilMatch = (\<lambda>a t af rf df. 0),
      PresentationIntervals = (\<lambda>a t. 0x8000000F),
      determineFSAASettings = (\<lambda>dev fsaa hint f fs. (0, 0)),
      validate = (\<lambda>d. True)\<rparr>"

text \<open>An 800x600 window in windowed mode, attached to a valid device.\<close>

definition exampleDesc :: RENDER_WINDOW_DESC where
  "exampleDesc =
     \<lparr>desc_width = 800, desc_height = 600, desc_left = - 1, desc_top = - 1,
      desc_fullscreen = False, desc_vsync = True, desc_vsyncInterval = 4, desc_FSAA = 0,
      desc_depthBuffer = True, desc_colorDepth = 32, desc_title = ''D3D9'',
      desc_border = WindowBorder_Normal, desc_outerDimensions = False,
      desc_toolWindow = False, desc_monitorIndex = - 1,
      desc_parentWindowHandle = None, desc_externalWindowHandle = None\<rparr>"

definition exampleWindow :: D3D9RenderWindow where
  "exampleWindow =
     \<lparr>mDesc = exampleDesc, mName = ''D3D9'', mDevice = Some exampleDevice, mDeviceValid = True, mHWnd = 7, mIsExternal = False,
      mIsFullScreen = False, mSwitchingFullscreen = False, mActive = True, mClosed = False,
      mWidth = 800, mHeight = 600, mTop = 200, mLeft = 552,
      mDesiredWidth = 800, mDesiredHeight = 600,
      mStyle = 0x12CF0000,
      mDisplayFrequency = 60, mColorDepth = 32, mVSync = True, mVSyncInterval = 4,
      mFSAA = 0, mFSAAHint = [], mFSAAType = 0, mFSAAQuality = 0,
      mIsDepthBuffered = True, mHwGamma = False\<rparr>"

text \<open>
  Hardware that rejects every depth/stencil probe and lacks the present interval of four
  (\<open>D3DERR_NOTAVAILABLE\<close> is a failure code: its sign bit is set).
\<close>

definition D3DERR_NOTAVAILABLE :: HRESULT where
  "D3DERR_NOTAVAILABLE = 0x8876086A"

definition rejectingEnv :: os_env where
  "rejectingEnv =
     exampleEnv\<lparr>CheckDeviceFormat := (\<lambda>a t bb f. D3DERR_NOTAVAILABLE),
                 CheckDepthStencilMatch := (\<lambda>a t af rf df. D3DERR_NOTAVAILABLE),
                 PresentationIntervals := (\<lambda>a t. 0x80000007)\<rparr>"

text \<open>The window in fullscreen mode at 1920x1080.\<close>

definition fullscreenWindow :: D3D9RenderWindow where
  "fullscreenWindow =
     exampleWindow\<lparr>mIsFullScreen := True, mWidth := 1920, mHeight := 1080,
                    mDesiredWidth := 1920, mDesiredHeight := 1080, mTop := 0, mLeft := 0,
                    mStyle := 0x92000000\<rparr>"

text \<open>
  A window as the constructor leaves it (no device, not valid), and a window to which a
  device has just been attached (a device, not yet valid).
\<close>

definition unboundWindow :: D3D9RenderWindow where
  "unboundWindow = D3D9RenderWindow_ctor exampleWindow exampleDesc"

definition invalidWindow :: D3D9RenderWindow where
  "invalidWindow = setDevice exampleWindow (Some exampleDevice)"

text \<open>
  A second 1920x1080 monitor to the right of the first: its work area begins at
  \<open>x = 1920\<close>. \<open>restoringWindow\<close> is on that monitor, back in windowed mode after
  \<open>setFullscreen(false, 800, 600)\<close>, its current size overwritten by a resize notification
  and its switch not yet finished.
\<close>

definition secondMonitorEnv :: os_env where
  "secondMonitorEnv =
     exampleEnv\<lparr>GetMonitorInfo :=
       (\<lambda>m. \<lparr>rcMonitor = SetRect 1920 0 3840 1080, rcWork = SetRect 1920 0 3840 1040\<rparr>)\<rparr>"

definition restoringWindow :: D3D9RenderWindow where
  "restoringWindow =
     exampleWindow\<lparr>mSwitchingFullscreen := True, mWidth := 1920, mHeight := 1080,
                    mTop := 0, mLeft := 1920\<rparr>"

text \<open>The window system reports that the user has resized the window to 1024x768.\<close>

definition resizedEnv :: os_env where
  "resizedEnv =
     exampleEnv\<lparr>GetWindowRect := (\<lambda>h. Some (SetRect 100 50 1140 857)),
                 GetClientRect := (\<lambda>h. Some (SetRect 0 0 1024 768))\<rparr>"

text \<open>
  A switch to fullscreen in progress: \<open>switchingWindow\<close> is the window after
  \<open>setFullscreen(true, 1920, 1080)\<close>, \<open>notifiedWindow\<close> is that window after the resize
  notification, and \<open>afterRequest\<close> is the notification followed by the end of the switch.
\<close>

definition switchingWindow :: D3D9RenderWindow where
  "switchingWindow = fullscreenWindow\<lparr>mSwitchingFullscreen := True\<rparr>"

definition notifiedWindow :: D3D9RenderWindow where
  "notifiedWindow =
     switchingWindow\<lparr>mTop := 50, mLeft := 100, mWidth := 1024, mHeight := 768\<rparr>"

definition afterRequest :: "(os_env \<times> op) list" where
  "afterRequest =
     [(resizedEnv, Op_windowMovedOrResized), (exampleEnv, Op_finishSwitchingFullscreen)]"

section \<open>Properties\<close>

lemmas member_function_defs =
  THROW_IF_NOT_CORE_THREAD_def setFullscreen_def startResize_def endResize_def
  startMove_def endMove_def move_def resize_def swapBuffers_def copyToMemory_def
  windowMovedOrResized_def updateWindowRect_def finishSwitchingFullscreen_def
  setDevice_def validateDevice_def destroy_internal_def

lemmas example_defs =
  exampleEnv_def exampleWindow_def exampleDevice_def exampleDesc_def rejectingEnv_def
  fullscreenWindow_def unboundWindow_def invalidWindow_def secondMonitorEnv_def
  restoringWindow_def resizedEnv_def switchingWindow_def notifiedWindow_def

lemmas constant_defs =
  WS_VISIBLE_def WS_CLIPCHILDREN_def WS_POPUP_def WS_OVERLAPPEDWINDOW_def
  SWP_NOSIZE_def SWP_NOMOVE_def SWP_NOZORDER_def SWP_NOACTIVATE_def SWP_FRAMECHANGED_def
  SWP_DRAWFRAME_def GWL_STYLE_def SetRect_def

subsection \<open>A request for the current mode\<close>

text \<open>
  C1. On the core thread, \<open>setFullscreen\<close> called with the window's current fullscreen
  flag, width and height changes no member of the window and makes no call at all: no
  window-system call, and the device is not invalidated. This holds whether or not a
  device is attached.
\<close>

theorem setFullscreen_current_mode_noop:
  "onCoreThread env \<Longrightarrow>
   setFullscreen env w (mIsFullScreen w) (mWidth w) (mHeight w) = Inr (w, [])"
  by (simp add: setFullscreen_def THROW_IF_NOT_CORE_THREAD_def)

theorem setFullscreen_current_mode_noop_witness:
  "onCoreThread exampleEnv \<and>
   setFullscreen exampleEnv exampleWindow False 800 600 = Inr (exampleWindow, [])"
  using setFullscreen_current_mode_noop [of exampleEnv exampleWindow]
  by (simp add: exampleEnv_def exampleWindow_def)

subsection \<open>The outer window size\<close>

text \<open>
  The difference of two \<open>LONG\<close>s, read as unsigned, is the difference of their signed
  values whenever that lies in the range of a \<open>LONG\<close>: the extent of a rectangle
  whose right edge is not left of its left edge.
\<close>

lemma uint_minus_sint:
  fixes a b :: "32 word"
  assumes "sint b \<le> sint a" and "sint a - sint b < 2 ^ 31"
  shows "uint (a - b) = sint a - sint b"
proof -
  have "uint (a - b) = take_bit 32 (sint (a - b))"
    by (simp add: uint_sint)
  also have "\<dots> = take_bit 32 (sint a - sint b)"
    by (simp add: sint_word_diff take_bit_signed_take_bit)
  also have "\<dots> = sint a - sint b"
    using assms by (simp add: take_bit_int_eq_self)
  finally show ?thesis .
qed

lemma clamp_is_min:
  fixes x m :: "'a :: linorder"
  shows "(if m < x then m else x) = min x m"
  by (auto simp: min_def)

lemma adjustWindow_eq:
  "adjustWindow env w clientWidth clientHeight style =
     (min (r_right (AdjustWindowRect env (SetRect 0 0 clientWidth clientHeight) style False)
           - r_left (AdjustWindowRect env (SetRect 0 0 clientWidth clientHeight) style False))
          (r_right (rcWork (GetMonitorInfo env (MonitorFromWindow env (mHWnd w))))
           - r_left (rcWork (GetMonitorInfo env (MonitorFromWindow env (mHWnd w))))),
      min (r_bottom (AdjustWindowRect env (SetRect 0 0 clientWidth clientHeight) style False)
           - r_top (AdjustWindowRect env (SetRect 0 0 clientWidth clientHeight) style False))
          (r_bottom (rcWork (GetMonitorInfo env (MonitorFromWindow env (mHWnd w))))
           - r_top (rcWork (GetMonitorInfo env (MonitorFromWindow env (mHWnd w))))))"
  by (simp add: adjustWindow_def Let_def clamp_is_min)

text \<open>
  C6. For every client size and style, each outer dimension that \<open>_adjustWindow\<close> returns
  is the decorated dimension if that is at most the extent of the monitor's work area,
  and the extent otherwise: it never exceeds the extent as the source computes it
  (\<open>rcWork.right - rcWork.left\<close>, \<open>rcWork.bottom - rcWork.top\<close>, compared unsigned).
  For a work area whose right and bottom edges are not before its left and top edges,
  that is the extent of the work area as an integer.
\<close>

theorem adjustWindow_within_work_area:
  assumes "adjustWindow env w clientWidth clientHeight style = (winWidth, winHeight)"
    and "rc = AdjustWindowRect env (SetRect 0 0 clientWidth clientHeight) style False"
    and "work = rcWork (GetMonitorInfo env (MonitorFromWindow env (mHWnd w)))"
  shows "winWidth = min (r_right rc - r_left rc) (r_right work - r_left work) \<and>
     winHeight = min (r_bottom rc - r_top rc) (r_bottom work - r_top work) \<and>
     winWidth \<le> r_right work - r_left work \<and>
     winHeight \<le> r_bottom work - r_top work \<and>
     (sint (r_left work) \<le> sint (r_right work) \<and>
      sint (r_right work) - sint (r_left work) < 2 ^ 31 \<longrightarrow>
        uint winWidth \<le> sint (r_right work) - sint (r_left work)) \<and>
     (sint (r_top work) \<le> sint (r_bottom work) \<and>
      sint (r_bottom work) - sint (r_top work) < 2 ^ 31 \<longrightarrow>
        uint winHeight \<le> sint (r_bottom work) - sint (r_top work))"
proof -
  have eq: "winWidth = min (r_right rc - r_left rc) (r_right work - r_left work)"
    "winHeight = min (r_bottom rc - r_top rc) (r_bottom work - r_top work)"
    using assms by (simp_all add: adjustWindow_eq)
  then have le: "winWidth \<le> r_right work - r_left work"
    "winHeight \<le> r_bottom work - r_top work"
    by simp_all
  have "uint winWidth \<le> sint (r_right work) - sint (r_left work)"
    if "sint (r_left work) \<le> sint (r_right work)"
      and "sint (r_right work) - sint (r_left work) < 2 ^ 31"
    using le(1) uint_minus_sint [OF that] by (simp add: word_le_def)
  moreover have "uint winHeight \<le> sint (r_bottom work) - sint (r_top work)"
    if "sint (r_top work) \<le> sint (r_bottom work)"
      and "sint (r_bottom work) - sint (r_top work) < 2 ^ 31"
    using le(2) uint_minus_sint [OF that] by (simp add: word_le_def)
  ultimately show ?thesis
    using eq le by blast
qed

theorem adjustWindow_within_work_area_witness:
  "adjustWindow exampleEnv exampleWindow 3000 600 0 = (1920, 639) \<and>
   AdjustWindowRect exampleEnv (SetRect 0 0 3000 600) 0 False = SetRect (- 8) (- 31) 3008 608 \<and>
   rcWork (GetMonitorInfo exampleEnv (MonitorFromWindow exampleEnv (mHWnd exampleWindow)))
     = SetRect 0 0 1920 1040 \<and>
   uint (1920 :: u32) \<le> 1920 - 0 \<and> uint (639 :: u32) \<le> 1040 - 0"
proof -
  have outer: "adjustWindow exampleEnv exampleWindow 3000 600 0 = (1920, 639)"
    by (simp add: adjustWindow_def exampleEnv_def exampleWindow_def SetRect_def)
  have rc: "AdjustWindowRect exampleEnv (SetRect 0 0 3000 600) 0 False
      = SetRect (- 8) (- 31) 3008 608"
    by (simp add: exampleEnv_def SetRect_def)
  have work:
    "rcWork (GetMonitorInfo exampleEnv (MonitorFromWindow exampleEnv (mHWnd exampleWindow)))
       = SetRect 0 0 1920 1040"
    by (simp add: exampleEnv_def)
  show ?thesis
    using adjustWindow_within_work_area [OF outer rc [symmetric] work [symmetric]] outer rc work
    by (simp add: SetRect_def)
qed

subsection \<open>Moving and resizing a fullscreen window\<close>

text \<open>
  C10. On the core thread, when the window has no native handle (\<open>mHWnd\<close> is null) or is
  in fullscreen mode, \<open>move\<close> and \<open>resize\<close> change no member of the window and make no
  window-system call.
\<close>

theorem move_resize_noop_when_fullscreen_or_no_handle:
  "onCoreThread env \<Longrightarrow> mHWnd w = 0 \<or> mIsFullScreen w \<Longrightarrow>
   move env w top' left' = Inr (w, []) \<and> resize env w width height = Inr (w, [])"
  by (auto simp: move_def THROW_IF_NOT_CORE_THREAD_def resize_def)

theorem move_resize_noop_when_fullscreen_or_no_handle_witness:
  "onCoreThread exampleEnv \<and>
   (mHWnd fullscreenWindow = 0 \<or> mIsFullScreen fullscreenWindow) \<and>
   move exampleEnv fullscreenWindow 10 20 = Inr (fullscreenWindow, []) \<and>
   resize exampleEnv fullscreenWindow 640 480 = Inr (fullscreenWindow, [])"
proof -
  have hyps: "onCoreThread exampleEnv" "mHWnd fullscreenWindow = 0 \<or> mIsFullScreen fullscreenWindow"
    by (simp_all add: exampleEnv_def fullscreenWindow_def)
  show ?thesis
    using move_resize_noop_when_fullscreen_or_no_handle [OF hyps, of 10 20 640 480] hyps
    by simp
qed

subsection \<open>The flag of a switch in progress\<close>

lemma setFullscreen_sets_switching:
  "fullScreen \<noteq> mIsFullScreen w \<Longrightarrow>
   setFullscreen env w fullScreen width height = Inr (w', cs) \<Longrightarrow>
   mSwitchingFullscreen w'"
  by (auto simp: setFullscreen_def THROW_IF_NOT_CORE_THREAD_def Let_def
           split: if_splits option.splits prod.splits)

lemma setFullscreen_returns:
  "onCoreThread env \<Longrightarrow> mDevice w = Some d \<Longrightarrow>
   \<exists>w' cs. setFullscreen env w fullScreen width height = Inr (w', cs)"
  by (auto simp: setFullscreen_def THROW_IF_NOT_CORE_THREAD_def Let_def
           split: if_splits option.splits prod.splits)

lemma setFullscreen_same_mode_keeps_switching:
  "setFullscreen env w (mIsFullScreen w) width height = Inr (w', cs) \<Longrightarrow>
   mSwitchingFullscreen w' = mSwitchingFullscreen w"
  by (auto simp: setFullscreen_def THROW_IF_NOT_CORE_THREAD_def Let_def
           split: if_splits option.splits prod.splits)

lemma finishSwitchingFullscreen_clears:
  "\<exists>w' cs. finishSwitchingFullscreen env w = Inr (w', cs) \<and> \<not> mSwitchingFullscreen w'"
  by (auto simp: finishSwitchingFullscreen_def Let_def split: if_splits prod.splits)

text \<open>The initialisation does not touch the flag.\<close>

lemma createOwnWindow_switching:
  "mSwitchingFullscreen (fst (createOwnWindow env w parentHWnd)) = mSwitchingFullscreen w"
  by (simp add: createOwnWindow_def Let_def case_prod_beta
        if_distrib [of mSwitchingFullscreen] if_distrib [of fst])

lemma initialize_internal_switching:
  assumes "initialize_internal env w = Inr (w', cs)"
  shows "mSwitchingFullscreen w' = mSwitchingFullscreen w"
proof -
  have "mSwitchingFullscreen (fst (projr (initialize_internal env w))) = mSwitchingFullscreen w"
    by (simp add: initialize_internal_def Let_def case_prod_beta createOwnWindow_switching
        if_distrib [of mSwitchingFullscreen] if_distrib [of fst])
  then show ?thesis
    using assms by simp
qed

text \<open>Every member function but \<open>_finishSwitchingFullscreen\<close> leaves a set flag set.\<close>

lemma step_keeps_switching:
  assumes "step env w operation = Inr (w', cs)"
    and "operation \<noteq> Op_finishSwitchingFullscreen"
    and "mSwitchingFullscreen w"
  shows "mSwitchingFullscreen w'"
proof (cases operation)
  case Op_initialize_internal
  then show ?thesis
    using assms initialize_internal_switching [of env w w' cs] by simp
qed (use assms in \<open>auto simp: member_function_defs Let_def
       split: if_splits option.splits sum.splits prod.splits\<close>)

lemma run_Cons_Inr:
  assumes "run w ((env, operation) # rest) = Inr (w', cs)"
  obtains w1 cs1 cs2 where
    "step env w operation = Inr (w1, cs1)" and "run w1 rest = Inr (w', cs2)"
  using assms by (auto split: sum.splits)

lemma run_keeps_switching:
  "run w ops = Inr (w', cs) \<Longrightarrow> Op_finishSwitchingFullscreen \<notin> snd ` set ops \<Longrightarrow>
   mSwitchingFullscreen w \<Longrightarrow> mSwitchingFullscreen w'"
proof (induction ops arbitrary: w cs)
  case Nil
  then show ?case by simp
next
  case (Cons a ops)
  obtain env operation where a: "a = (env, operation)"
    by (cases a)
  obtain w1 cs1 cs2 where
    first: "step env w operation = Inr (w1, cs1)" and rest: "run w1 ops = Inr (w', cs2)"
    using Cons.prems(1) unfolding a by (rule run_Cons_Inr)
  have "operation \<noteq> Op_finishSwitchingFullscreen"
    using Cons.prems(2) a by force
  with first have "mSwitchingFullscreen w1"
    using Cons.prems(3) by (rule step_keeps_switching)
  moreover have "Op_finishSwitchingFullscreen \<notin> snd ` set ops"
    using Cons.prems(2) by simp
  ultimately show ?case
    using Cons.IH [OF rest] by simp
qed

text \<open>
  C2. A \<open>setFullscreen\<close> that changes the fullscreen flag returns (on the core thread,
  with a device attached) and leaves \<open>mSwitchingFullscreen\<close> true. Once set, the flag
  stays set through every member function other than \<open>_finishSwitchingFullscreen\<close>, so a
  run that starts with the flag set and ends with it clear contains a call of
  \<open>_finishSwitchingFullscreen\<close>; that function always clears it. A \<open>setFullscreen\<close>
  that keeps the fullscreen flag, whatever the size, leaves the flag as it was.
\<close>

theorem switching_flag_lifecycle:
  "(fullScreen \<noteq> mIsFullScreen w \<and> onCoreThread env \<and> mDevice w \<noteq> None \<longrightarrow>
      (\<exists>w1 cs1. setFullscreen env w fullScreen width height = Inr (w1, cs1))) \<and>
   (fullScreen \<noteq> mIsFullScreen w \<and>
    setFullscreen env w fullScreen width height = Inr (w1, cs1) \<longrightarrow>
      mSwitchingFullscreen w1) \<and>
   (mSwitchingFullscreen w \<and> operation \<noteq> Op_finishSwitchingFullscreen \<and>
    step env w operation = Inr (w2, cs2) \<longrightarrow>
      mSwitchingFullscreen w2) \<and>
   (mSwitchingFullscreen w \<and> run w ops = Inr (w3, cs3) \<and> \<not> mSwitchingFullscreen w3 \<longrightarrow>
      Op_finishSwitchingFullscreen \<in> snd ` set ops) \<and>
   (\<exists>w4 cs4. finishSwitchingFullscreen env w = Inr (w4, cs4) \<and> \<not> mSwitchingFullscreen w4) \<and>
   (setFullscreen env w (mIsFullScreen w) width height = Inr (w5, cs5) \<longrightarrow>
      mSwitchingFullscreen w5 = mSwitchingFullscreen w)"
proof (intro conjI impI)
  assume "fullScreen \<noteq> mIsFullScreen w \<and> onCoreThread env \<and> mDevice w \<noteq> None"
  then show "\<exists>w1 cs1. setFullscreen env w fullScreen width height = Inr (w1, cs1)"
    using setFullscreen_returns [of env w _ fullScreen width height] by auto
next
  assume "fullScreen \<noteq> mIsFullScreen w \<and>
    setFullscreen env w fullScreen width height = Inr (w1, cs1)"
  then show "mSwitchingFullscreen w1"
    using setFullscreen_sets_switching by blast
next
  assume "mSwitchingFullscreen w \<and> operation \<noteq> Op_finishSwitchingFullscreen \<and>
    step env w operation = Inr (w2, cs2)"
  then show "mSwitchingFullscreen w2"
    using step_keeps_switching by blast
next
  assume "mSwitchingFullscreen w \<and> run w ops = Inr (w3, cs3) \<and> \<not> mSwitchingFullscreen w3"
  then show "Op_finishSwitchingFullscreen \<in> snd ` set ops"
    using run_keeps_switching by blast
next
  show "\<exists>w4 cs4. finishSwitchingFullscreen env w = Inr (w4, cs4) \<and> \<not> mSwitchingFullscreen w4"
    by (rule finishSwitchingFullscreen_clears)
next
  assume "setFullscreen env w (mIsFullScreen w) width height = Inr (w5, cs5)"
  then show "mSwitchingFullscreen w5 = mSwitchingFullscreen w"
    by (rule setFullscreen_same_mode_keeps_switching)
qed

text \<open>
  The run of the witness: the request on the windowed example window, then a resize
  notification, then the end of the switch.
\<close>

lemma setFullscreen_example:
  "setFullscreen exampleEnv exampleWindow True 1920 1080 =
     Inr (switchingWindow,
          [SetWindowPos 7 HWND_TOPMOST 0 0 1920 1080 0x10,
           SetWindowLong 7 (- 16) 0x92000000,
           SetWindowPos 7 HWND_TOP 0 0 0 0 0x37,
           Device_invalidate exampleDevice])"
  by (simp add: setFullscreen_def THROW_IF_NOT_CORE_THREAD_def example_defs constant_defs
      Let_def)

lemma windowMovedOrResized_example:
  "windowMovedOrResized resizedEnv switchingWindow =
     Inr (notifiedWindow, [RenderWindow_windowMovedOrResized])"
  by (simp add: example_defs constant_defs Let_def
      windowMovedOrResized_def THROW_IF_NOT_CORE_THREAD_def updateWindowRect_def)

lemma finishSwitchingFullscreen_example:
  "finishSwitchingFullscreen exampleEnv notifiedWindow =
     Inr (notifiedWindow\<lparr>mSwitchingFullscreen := False\<rparr>,
          [SetWindowRgn 7 (SetRect 0 0 1024 768) False])"
  by (simp add: example_defs finishSwitchingFullscreen_def)

lemma run_afterRequest:
  "run switchingWindow afterRequest =
     Inr (notifiedWindow\<lparr>mSwitchingFullscreen := False\<rparr>,
          [RenderWindow_windowMovedOrResized, SetWindowRgn 7 (SetRect 0 0 1024 768) False])"
  by (simp add: afterRequest_def windowMovedOrResized_example
      finishSwitchingFullscreen_example)

theorem switching_flag_lifecycle_witness:
  "(True \<noteq> mIsFullScreen exampleWindow \<and> onCoreThread exampleEnv \<and>
    mDevice exampleWindow \<noteq> None) \<and>
   \<not> mSwitchingFullscreen exampleWindow \<and>
   (\<exists>cs1. setFullscreen exampleEnv exampleWindow True 1920 1080 = Inr (switchingWindow, cs1)) \<and>
   mSwitchingFullscreen switchingWindow \<and>
   (\<exists>w3 cs3. run switchingWindow afterRequest = Inr (w3, cs3) \<and> \<not> mSwitchingFullscreen w3) \<and>
   Op_finishSwitchingFullscreen \<in> snd ` set afterRequest"
proof -
  have hyps: "True \<noteq> mIsFullScreen exampleWindow" "onCoreThread exampleEnv"
      "mDevice exampleWindow \<noteq> None" "\<not> mSwitchingFullscreen exampleWindow"
    by (simp_all add: exampleWindow_def exampleEnv_def)
  note request = setFullscreen_example
  note rest = run_afterRequest
  have cleared: "\<not> mSwitchingFullscreen (notifiedWindow\<lparr>mSwitchingFullscreen := False\<rparr>)"
    by simp
  have flagged: "mSwitchingFullscreen switchingWindow"
    using switching_flag_lifecycle
      [where fullScreen = True and w = exampleWindow and env = exampleEnv
         and width = 1920 and height = 1080 and ?w1.0 = switchingWindow] hyps(1) request
    by blast
  have "Op_finishSwitchingFullscreen \<in> snd ` set afterRequest"
    using switching_flag_lifecycle
      [where w = switchingWindow and ops = afterRequest
         and ?w3.0 = "notifiedWindow\<lparr>mSwitchingFullscreen := False\<rparr>"] flagged rest cleared
    by blast
  then show ?thesis
    using hyps request rest cleared flagged by blast
qed

subsection \<open>The desired size\<close>

lemma setFullscreen_sets_desired:
  "setFullscreen env w fullScreen width height = Inr (w', cs) \<Longrightarrow>
   fullScreen \<noteq> mIsFullScreen w \<or> width \<noteq> mWidth w \<or> height \<noteq> mHeight w \<Longrightarrow>
   mDesiredWidth w' = width \<and> mDesiredHeight w' = height \<and>
   mWidth w' = width \<and> mHeight w' = height"
  by (auto simp: setFullscreen_def THROW_IF_NOT_CORE_THREAD_def Let_def
           split: if_splits option.splits prod.splits)

lemma updateWindowRect_keeps_desired:
  "mDesiredWidth (updateWindowRect env w) = mDesiredWidth w \<and>
   mDesiredHeight (updateWindowRect env w) = mDesiredHeight w"
  by (simp add: updateWindowRect_def Let_def split: option.splits)

lemma windowMovedOrResized_overwrites:
  assumes "onCoreThread env" and "mHWnd w \<noteq> 0" and "\<not> IsIconic env (mHWnd w)"
    and "GetWindowRect env (mHWnd w) = Some rc" and "GetClientRect env (mHWnd w) = Some rc'"
  shows "windowMovedOrResized env w =
     Inr (w\<lparr>mTop := r_top rc, mLeft := r_left rc,
            mWidth := r_right rc' - r_left rc', mHeight := r_bottom rc' - r_top rc'\<rparr>,
          [RenderWindow_windowMovedOrResized])"
  using assms
  by (simp add: windowMovedOrResized_def THROW_IF_NOT_CORE_THREAD_def updateWindowRect_def)

text \<open>
  Every member function other than the initialisation and \<open>setFullscreen\<close> returns the
  desired size it found; \<open>resize\<close> is among them.
\<close>

lemma step_keeps_desired:
  assumes "step env w operation = Inr (w', cs)" and "\<not> is_explicit_request operation"
  shows "mDesiredWidth w' = mDesiredWidth w \<and> mDesiredHeight w' = mDesiredHeight w"
  using assms
  by (cases operation)
     (auto simp: member_function_defs Let_def
           split: if_splits option.splits sum.splits prod.splits)

lemma run_keeps_desired:
  "run w ops = Inr (w', cs) \<Longrightarrow>
   \<forall>operation \<in> snd ` set ops. \<not> is_explicit_request operation \<Longrightarrow>
   mDesiredWidth w' = mDesiredWidth w \<and> mDesiredHeight w' = mDesiredHeight w"
proof (induction ops arbitrary: w cs)
  case Nil
  then show ?case by simp
next
  case (Cons a ops)
  obtain env operation where a: "a = (env, operation)"
    by (cases a)
  obtain w1 cs1 cs2 where
    first: "step env w operation = Inr (w1, cs1)" and rest: "run w1 ops = Inr (w', cs2)"
    using Cons.prems(1) unfolding a by (rule run_Cons_Inr)
  have "\<not> is_explicit_request operation"
    using Cons.prems(2) a by force
  with first have "mDesiredWidth w1 = mDesiredWidth w \<and> mDesiredHeight w1 = mDesiredHeight w"
    by (rule step_keeps_desired)
  moreover have "mDesiredWidth w' = mDesiredWidth w1 \<and> mDesiredHeight w' = mDesiredHeight w1"
    using Cons.IH [OF rest] Cons.prems(2) by simp
  ultimately show ?case by simp
qed

text \<open>
  C9. The desired width and height change only in an explicit request, which is the
  initialisation of the window or \<open>setFullscreen\<close>: every other member function, and so
  every run of such functions, returns them unchanged. In particular the notification
  path, \<open>_windowMovedOrResized\<close> and its \<open>updateWindowRect\<close>, never changes them, although
  for a window that is not minimised it overwrites the current position and size with
  what the window system reports.
\<close>

theorem desired_size_changes_only_on_request:
  "(step env w operation = Inr (w1, cs1) \<and> \<not> is_explicit_request operation \<longrightarrow>
      mDesiredWidth w1 = mDesiredWidth w \<and> mDesiredHeight w1 = mDesiredHeight w) \<and>
   (run w ops = Inr (w2, cs2) \<and>
    (\<forall>operation \<in> snd ` set ops. \<not> is_explicit_request operation) \<longrightarrow>
      mDesiredWidth w2 = mDesiredWidth w \<and> mDesiredHeight w2 = mDesiredHeight w) \<and>
   (windowMovedOrResized env w = Inr (w3, cs3) \<longrightarrow>
      mDesiredWidth w3 = mDesiredWidth w \<and> mDesiredHeight w3 = mDesiredHeight w) \<and>
   mDesiredWidth (updateWindowRect env w) = mDesiredWidth w \<and>
   mDesiredHeight (updateWindowRect env w) = mDesiredHeight w \<and>
   (onCoreThread env \<and> mHWnd w \<noteq> 0 \<and> \<not> IsIconic env (mHWnd w) \<and>
    GetWindowRect env (mHWnd w) = Some rc \<and> GetClientRect env (mHWnd w) = Some rc' \<longrightarrow>
      windowMovedOrResized env w =
        Inr (w\<lparr>mTop := r_top rc, mLeft := r_left rc,
               mWidth := r_right rc' - r_left rc', mHeight := r_bottom rc' - r_top rc'\<rparr>,
             [RenderWindow_windowMovedOrResized]))"
proof (intro conjI impI)
  assume "step env w operation = Inr (w1, cs1) \<and> \<not> is_explicit_request operation"
  then show "mDesiredWidth w1 = mDesiredWidth w" "mDesiredHeight w1 = mDesiredHeight w"
    using step_keeps_desired by blast+
next
  assume "run w ops = Inr (w2, cs2) \<and>
    (\<forall>operation \<in> snd ` set ops. \<not> is_explicit_request operation)"
  then show "mDesiredWidth w2 = mDesiredWidth w" "mDesiredHeight w2 = mDesiredHeight w"
    using run_keeps_desired by blast+
next
  assume "windowMovedOrResized env w = Inr (w3, cs3)"
  then have "step env w Op_windowMovedOrResized = Inr (w3, cs3)"
    by simp
  then show "mDesiredWidth w3 = mDesiredWidth w" "mDesiredHeight w3 = mDesiredHeight w"
    using step_keeps_desired [of env w Op_windowMovedOrResized w3 cs3] by simp_all
next
  show "mDesiredWidth (updateWindowRect env w) = mDesiredWidth w"
    "mDesiredHeight (updateWindowRect env w) = mDesiredHeight w"
    using updateWindowRect_keeps_desired by blast+
next
  assume "onCoreThread env \<and> mHWnd w \<noteq> 0 \<and> \<not> IsIconic env (mHWnd w) \<and>
    GetWindowRect env (mHWnd w) = Some rc \<and> GetClientRect env (mHWnd w) = Some rc'"
  then show "windowMovedOrResized env w =
        Inr (w\<lparr>mTop := r_top rc, mLeft := r_left rc,
               mWidth := r_right rc' - r_left rc', mHeight := r_bottom rc' - r_top rc'\<rparr>,
             [RenderWindow_windowMovedOrResized])"
    using windowMovedOrResized_overwrites by blast
qed

theorem desired_size_changes_only_on_request_witness:
  "\<not> is_explicit_request Op_windowMovedOrResized \<and>
   (onCoreThread resizedEnv \<and> mHWnd switchingWindow \<noteq> 0 \<and>
    \<not> IsIconic resizedEnv (mHWnd switchingWindow) \<and>
    GetWindowRect resizedEnv (mHWnd switchingWindow) = Some (SetRect 100 50 1140 857) \<and>
    GetClientRect resizedEnv (mHWnd switchingWindow) = Some (SetRect 0 0 1024 768)) \<and>
   windowMovedOrResized resizedEnv switchingWindow =
     Inr (notifiedWindow, [RenderWindow_windowMovedOrResized]) \<and>
   mWidth switchingWindow = 1920 \<and> mWidth notifiedWindow = 1024 \<and>
   mHeight switchingWindow = 1080 \<and> mHeight notifiedWindow = 768 \<and>
   mDesiredWidth notifiedWindow = 1920 \<and> mDesiredHeight notifiedWindow = 1080 \<and>
   mDesiredWidth switchingWindow = 1920 \<and> mDesiredHeight switchingWindow = 1080"
proof -
  have hyps: "onCoreThread resizedEnv \<and> mHWnd switchingWindow \<noteq> 0 \<and>
    \<not> IsIconic resizedEnv (mHWnd switchingWindow) \<and>
    GetWindowRect resizedEnv (mHWnd switchingWindow) = Some (SetRect 100 50 1140 857) \<and>
    GetClientRect resizedEnv (mHWnd switchingWindow) = Some (SetRect 0 0 1024 768)"
    by (simp add: example_defs)
  have moved: "windowMovedOrResized resizedEnv switchingWindow =
     Inr (notifiedWindow, [RenderWindow_windowMovedOrResized])"
    using desired_size_changes_only_on_request
      [where env = resizedEnv and w = switchingWindow and rc = "SetRect 100 50 1140 857"
         and rc' = "SetRect 0 0 1024 768"] hyps
    by (simp add: notifiedWindow_def SetRect_def)
  have kept: "mDesiredWidth notifiedWindow = mDesiredWidth switchingWindow \<and>
      mDesiredHeight notifiedWindow = mDesiredHeight switchingWindow"
    using desired_size_changes_only_on_request
      [where env = resizedEnv and w = switchingWindow and ?w3.0 = notifiedWindow
         and ?cs3.0 = "[RenderWindow_windowMovedOrResized]"] moved
    by blast
  have sizes: "mWidth switchingWindow = 1920" "mWidth notifiedWindow = 1024"
    "mHeight switchingWindow = 1080" "mHeight notifiedWindow = 768"
    "mDesiredWidth switchingWindow = 1920" "mDesiredHeight switchingWindow = 1080"
    by (simp_all add: notifiedWindow_def switchingWindow_def fullscreenWindow_def)
  show ?thesis
    using hyps moved kept sizes by simp
qed

subsection \<open>The negotiation of the present parameters\<close>

lemma vsyncIntervalFormat_cases:
  "vsyncIntervalFormat n =
     (if n = 1 then D3DPRESENT_INTERVAL_ONE
      else if n = 2 then D3DPRESENT_INTERVAL_TWO
      else if n = 3 then D3DPRESENT_INTERVAL_THREE
      else if n = 4 then D3DPRESENT_INTERVAL_FOUR
      else D3DPRESENT_INTERVAL_ONE)"
  by (simp add: vsyncIntervalFormat_def)

lemma presentationInterval_bound:
  "mDevice w = Some d \<Longrightarrow>
   presentationInterval env w t =
     Inr (if \<not> mVSync w then D3DPRESENT_INTERVAL_IMMEDIATE
          else if \<not> mIsFullScreen w then D3DPRESENT_INTERVAL_ONE
          else if PresentationIntervals env (getAdapterNumber d) t
                    AND vsyncIntervalFormat (mVSyncInterval w) = 0
               then D3DPRESENT_INTERVAL_ONE
               else vsyncIntervalFormat (mVSyncInterval w),
          if mVSync w \<and> mIsFullScreen w then [D3D_GetDeviceCaps (getAdapterNumber d) t] else [])"
  by (simp add: presentationInterval_def Let_def)

lemma presentationInterval_no_probe:
  "presentationInterval env w t = Inr (iv, cs) \<Longrightarrow> \<forall>c \<in> set cs. \<not> is_format_probe c"
  by (auto simp: presentationInterval_def Let_def split: if_splits option.splits)

lemma autoDepthStencilFormat_low:
  "\<not> 16 < mColorDepth w \<Longrightarrow> autoDepthStencilFormat env w t bb = Inr (D3DFMT_D16, [])"
  by (simp add: autoDepthStencilFormat_def)

lemma autoDepthStencilFormat_high:
  "16 < mColorDepth w \<Longrightarrow> mDevice w = Some d \<Longrightarrow>
   \<exists>cs. autoDepthStencilFormat env w t bb =
     Inr (if \<not> FAILED (CheckDeviceFormat env (getAdapterNumber d) t bb D3DFMT_D24S8) then
            (if SUCCEEDED (CheckDepthStencilMatch env (getAdapterNumber d) t bb bb D3DFMT_D24S8)
             then D3DFMT_D24S8 else D3DFMT_D24X8)
          else if \<not> FAILED (CheckDeviceFormat env (getAdapterNumber d) t bb D3DFMT_D32)
               then D3DFMT_D32 else D3DFMT_D16, cs) \<and>
     (\<forall>a' t' bb'. D3D_CheckDeviceFormat a' t' bb' D3DFMT_D16 \<notin> set cs)"
  by (simp add: autoDepthStencilFormat_def Let_def)

lemma fsaaSettings_bound:
  "mDevice w = Some d \<Longrightarrow>
   \<exists>r c. fsaaSettings env w bb = Inr (r, [c]) \<and> \<not> is_format_probe c"
  by (auto simp: fsaaSettings_def Let_def split: prod.splits)

text \<open>
  With a device attached the negotiation returns, and its result carries what the three
  negotiations chose.
\<close>

lemma buildPresentParameters_bound:
  assumes d: "mDevice w = Some d"
  shows "\<exists>pp cs1 cs2 cs3 iv df.
     buildPresentParameters env w = Inr (pp, cs1 @ cs2 @ cs3) \<and>
     presentationInterval env w (getDeviceType d) = Inr (iv, cs1) \<and>
     autoDepthStencilFormat env w (getDeviceType d)
        (if mColorDepth w > 16 then D3DFMT_X8R8G8B8 else D3DFMT_R5G6B5) = Inr (df, cs2) \<and>
     (\<forall>c \<in> set cs3. \<not> is_format_probe c) \<and>
     PresentationInterval pp = iv \<and> AutoDepthStencilFormat pp = df"
proof -
  let ?bb = "if mColorDepth w > 16 then D3DFMT_X8R8G8B8 else D3DFMT_R5G6B5"
  obtain iv cs1 where 1: "presentationInterval env w (getDeviceType d) = Inr (iv, cs1)"
    using presentationInterval_bound [OF d] by blast
  obtain df cs2 where 2: "autoDepthStencilFormat env w (getDeviceType d) ?bb = Inr (df, cs2)"
    using autoDepthStencilFormat_low [of w env "getDeviceType d" ?bb]
      autoDepthStencilFormat_high [OF _ d, of env "getDeviceType d" ?bb]
    by (cases "16 < mColorDepth w") blast+
  obtain r c where 3: "fsaaSettings env w ?bb = Inr (r, [c])" and c: "\<not> is_format_probe c"
    using fsaaSettings_bound [OF d] by blast
  show ?thesis
    using 1 2 3 c d
    by (cases r) (auto simp: buildPresentParameters_def Let_def)
qed

text \<open>Without a device the negotiation ends in the call through the null pointer.\<close>

lemma buildPresentParameters_null_device:
  assumes n: "mDevice w = None"
  shows "buildPresentParameters env w = Inl NullDevice"
proof -
  have f: "fsaaSettings env w bb = Inl NullDevice" for bb
    using n by (simp add: fsaaSettings_def)
  have i: "presentationInterval env w t = Inl NullDevice \<or>
           (\<exists>r. presentationInterval env w t = Inr r)" for t
    using n by (simp add: presentationInterval_def Let_def)
  have a: "autoDepthStencilFormat env w t bb = Inl NullDevice \<or>
           (\<exists>r. autoDepthStencilFormat env w t bb = Inr r)" for t bb
    using n by (simp add: autoDepthStencilFormat_def Let_def)
  let ?bb = "if mColorDepth w > 16 then D3DFMT_X8R8G8B8 else D3DFMT_R5G6B5"
  show ?thesis
    using i [of D3DDEVTYPE_HAL] a [of D3DDEVTYPE_HAL ?bb] f [of ?bb]
    by (auto simp: buildPresentParameters_def Let_def n)
qed

lemma FAILED_NOTAVAILABLE: "FAILED D3DERR_NOTAVAILABLE"
  by (simp add: FAILED_def D3DERR_NOTAVAILABLE_def word_sless_alt)

text \<open>
  C3. For a window with a device attached, the negotiation returns parameters whose
  depth/stencil format is, for a colour depth above 16: \<open>D24S8\<close> if the probe accepts
  \<open>D24S8\<close> and the depth/stencil match succeeds, \<open>D24X8\<close> if the probe accepts \<open>D24S8\<close>
  and the match fails, \<open>D32\<close> if the probe rejects \<open>D24S8\<close> and accepts \<open>D32\<close>, and
  \<open>D16\<close> if it rejects both. For a colour depth of at most 16 the format is \<open>D16\<close> and
  no format probe is made.
\<close>

theorem depth_stencil_fallback_chain:
  assumes d: "mDevice w = Some d"
  shows "\<exists>pp cs. buildPresentParameters env w = Inr (pp, cs) \<and>
     AutoDepthStencilFormat pp =
       (if mColorDepth w > 16 then
          (if \<not> FAILED (CheckDeviceFormat env (getAdapterNumber d) (getDeviceType d)
                           D3DFMT_X8R8G8B8 D3DFMT_D24S8) then
             (if SUCCEEDED (CheckDepthStencilMatch env (getAdapterNumber d) (getDeviceType d)
                              D3DFMT_X8R8G8B8 D3DFMT_X8R8G8B8 D3DFMT_D24S8)
              then D3DFMT_D24S8 else D3DFMT_D24X8)
           else if \<not> FAILED (CheckDeviceFormat env (getAdapterNumber d) (getDeviceType d)
                                D3DFMT_X8R8G8B8 D3DFMT_D32)
                then D3DFMT_D32 else D3DFMT_D16)
        else D3DFMT_D16) \<and>
     (\<not> mColorDepth w > 16 \<longrightarrow> (\<forall>c \<in> set cs. \<not> is_format_probe c))"
proof -
  obtain pp cs1 cs2 cs3 iv df where
    b: "buildPresentParameters env w = Inr (pp, cs1 @ cs2 @ cs3)" and
    i: "presentationInterval env w (getDeviceType d) = Inr (iv, cs1)" and
    a: "autoDepthStencilFormat env w (getDeviceType d)
          (if mColorDepth w > 16 then D3DFMT_X8R8G8B8 else D3DFMT_R5G6B5) = Inr (df, cs2)" and
    f: "\<forall>c \<in> set cs3. \<not> is_format_probe c" and
    p: "AutoDepthStencilFormat pp = df"
    using buildPresentParameters_bound [OF d] by blast
  have cs1: "\<forall>c \<in> set cs1. \<not> is_format_probe c"
    using i by (rule presentationInterval_no_probe)
  show ?thesis
  proof (cases "16 < mColorDepth w")
    case True
    with a autoDepthStencilFormat_high [OF True d, of env "getDeviceType d" D3DFMT_X8R8G8B8]
    show ?thesis using b p by auto
  next
    case False
    with a autoDepthStencilFormat_low [OF False, of env "getDeviceType d" D3DFMT_R5G6B5]
    show ?thesis using b p cs1 f by auto
  qed
qed

theorem depth_stencil_fallback_chain_witness:
  "mDevice exampleWindow = Some exampleDevice \<and>
   16 < mColorDepth exampleWindow \<and>
   FAILED (CheckDeviceFormat rejectingEnv 0 D3DDEVTYPE_HAL D3DFMT_X8R8G8B8 D3DFMT_D24S8) \<and>
   FAILED (CheckDeviceFormat rejectingEnv 0 D3DDEVTYPE_HAL D3DFMT_X8R8G8B8 D3DFMT_D32) \<and>
   (\<exists>pp cs. buildPresentParameters rejectingEnv exampleWindow = Inr (pp, cs) \<and>
      AutoDepthStencilFormat pp = D3DFMT_D16)"
proof -
  have d: "mDevice exampleWindow = Some exampleDevice"
    by (simp add: exampleWindow_def)
  have facts: "16 < mColorDepth exampleWindow"
    "getAdapterNumber exampleDevice = 0" "getDeviceType exampleDevice = D3DDEVTYPE_HAL"
    "CheckDeviceFormat rejectingEnv a t bb f = D3DERR_NOTAVAILABLE" for a t bb f
    by (simp_all add: exampleWindow_def exampleDevice_def rejectingEnv_def)
  show ?thesis
    using depth_stencil_fallback_chain [OF d, of rejectingEnv] d
    by (simp add: facts FAILED_NOTAVAILABLE)
qed

text \<open>
  C4. For a window with a device attached, the negotiation returns parameters whose
  present interval is: the immediate interval when vsync is off; the interval of one when
  vsync is on and the window is windowed; and, when vsync is on and the window is
  fullscreen, the interval that the requested count selects (1, 2, 3 or 4 select the
  intervals of one to four, any other count the interval of one), replaced by the
  interval of one if the capability mask of the device lacks it. In particular a request
  for four with a mask that lacks four gives the interval of one.
\<close>

theorem present_interval_selection:
  assumes d: "mDevice w = Some d"
  shows "\<exists>pp cs. buildPresentParameters env w = Inr (pp, cs) \<and>
     PresentationInterval pp =
       (if \<not> mVSync w then D3DPRESENT_INTERVAL_IMMEDIATE
        else if \<not> mIsFullScreen w then D3DPRESENT_INTERVAL_ONE
        else (let requested =
                    (if mVSyncInterval w = 1 then D3DPRESENT_INTERVAL_ONE
                     else if mVSyncInterval w = 2 then D3DPRESENT_INTERVAL_TWO
                     else if mVSyncInterval w = 3 then D3DPRESENT_INTERVAL_THREE
                     else if mVSyncInterval w = 4 then D3DPRESENT_INTERVAL_FOUR
                     else D3DPRESENT_INTERVAL_ONE)
              in if PresentationIntervals env (getAdapterNumber d) (getDeviceType d)
                      AND requested = 0
                 then D3DPRESENT_INTERVAL_ONE else requested)) \<and>
     (mVSync w \<and> mIsFullScreen w \<and> mVSyncInterval w = 4 \<and>
      PresentationIntervals env (getAdapterNumber d) (getDeviceType d)
        AND D3DPRESENT_INTERVAL_FOUR = 0
      \<longrightarrow> PresentationInterval pp = D3DPRESENT_INTERVAL_ONE)"
proof -
  obtain pp cs iv cs1 where
    b: "buildPresentParameters env w = Inr (pp, cs)" and
    i: "presentationInterval env w (getDeviceType d) = Inr (iv, cs1)" and
    p: "PresentationInterval pp = iv"
    using buildPresentParameters_bound [OF d] by blast
  have iv: "iv =
       (if \<not> mVSync w then D3DPRESENT_INTERVAL_IMMEDIATE
        else if \<not> mIsFullScreen w then D3DPRESENT_INTERVAL_ONE
        else if PresentationIntervals env (getAdapterNumber d) (getDeviceType d)
                  AND vsyncIntervalFormat (mVSyncInterval w) = 0
             then D3DPRESENT_INTERVAL_ONE
             else vsyncIntervalFormat (mVSyncInterval w))"
    using i presentationInterval_bound [OF d, of env "getDeviceType d"] by simp
  have four: "vsyncIntervalFormat 4 = D3DPRESENT_INTERVAL_FOUR"
    by (simp add: vsyncIntervalFormat_def)
  have "PresentationInterval pp =
       (if \<not> mVSync w then D3DPRESENT_INTERVAL_IMMEDIATE
        else if \<not> mIsFullScreen w then D3DPRESENT_INTERVAL_ONE
        else (let requested =
                    (if mVSyncInterval w = 1 then D3DPRESENT_INTERVAL_ONE
                     else if mVSyncInterval w = 2 then D3DPRESENT_INTERVAL_TWO
                     else if mVSyncInterval w = 3 then D3DPRESENT_INTERVAL_THREE
                     else if mVSyncInterval w = 4 then D3DPRESENT_INTERVAL_FOUR
                     else D3DPRESENT_INTERVAL_ONE)
              in if PresentationIntervals env (getAdapterNumber d) (getDeviceType d)
                      AND requested = 0
                 then D3DPRESENT_INTERVAL_ONE else requested))"
    unfolding p iv Let_def vsyncIntervalFormat_cases [symmetric] ..
  moreover have "mVSync w \<and> mIsFullScreen w \<and> mVSyncInterval w = 4 \<and>
      PresentationIntervals env (getAdapterNumber d) (getDeviceType d)
        AND D3DPRESENT_INTERVAL_FOUR = 0
      \<longrightarrow> PresentationInterval pp = D3DPRESENT_INTERVAL_ONE"
    unfolding p iv by (simp add: four)
  ultimately show ?thesis
    using b by blast
qed

theorem present_interval_selection_witness:
  "mDevice fullscreenWindow = Some exampleDevice \<and>
   (mVSync fullscreenWindow \<and> mIsFullScreen fullscreenWindow \<and>
    mVSyncInterval fullscreenWindow = 4 \<and>
    PresentationIntervals rejectingEnv 0 D3DDEVTYPE_HAL AND D3DPRESENT_INTERVAL_FOUR = 0) \<and>
   (\<exists>pp cs. buildPresentParameters rejectingEnv fullscreenWindow = Inr (pp, cs) \<and>
      PresentationInterval pp = D3DPRESENT_INTERVAL_ONE)"
proof -
  have d: "mDevice fullscreenWindow = Some exampleDevice"
    by (simp add: fullscreenWindow_def exampleWindow_def)
  have facts: "mVSync fullscreenWindow" "mIsFullScreen fullscreenWindow"
    "mVSyncInterval fullscreenWindow = 4"
    "getAdapterNumber exampleDevice = 0" "getDeviceType exampleDevice = D3DDEVTYPE_HAL"
    "PresentationIntervals rejectingEnv 0 D3DDEVTYPE_HAL AND D3DPRESENT_INTERVAL_FOUR = 0"
    by (simp_all add: fullscreenWindow_def exampleWindow_def exampleDevice_def rejectingEnv_def
        D3DPRESENT_INTERVAL_FOUR_def)
  obtain pp cs where
    b: "buildPresentParameters rejectingEnv fullscreenWindow = Inr (pp, cs)" and
    four: "mVSync fullscreenWindow \<and> mIsFullScreen fullscreenWindow \<and>
      mVSyncInterval fullscreenWindow = 4 \<and>
      PresentationIntervals rejectingEnv (getAdapterNumber exampleDevice)
        (getDeviceType exampleDevice) AND D3DPRESENT_INTERVAL_FOUR = 0
      \<longrightarrow> PresentationInterval pp = D3DPRESENT_INTERVAL_ONE"
    using present_interval_selection [OF d, of rejectingEnv] by blast
  have "PresentationInterval pp = D3DPRESENT_INTERVAL_ONE"
    using four facts by simp
  then show ?thesis
    using d facts b by blast
qed

text \<open>
  Against C7 as stated: on hardware that rejects every depth/stencil format, the last
  of the chain included, the negotiation for the example window does not fail. It
  returns parameters with the \<open>D16\<close> format, after exactly two format probes, neither of
  them for \<open>D16\<close>.
\<close>

theorem negotiation_selects_D16_silently:
  "FAILED (CheckDeviceFormat rejectingEnv 0 D3DDEVTYPE_HAL D3DFMT_X8R8G8B8 D3DFMT_D24S8) \<and>
   FAILED (CheckDeviceFormat rejectingEnv 0 D3DDEVTYPE_HAL D3DFMT_X8R8G8B8 D3DFMT_D32) \<and>
   FAILED (CheckDeviceFormat rejectingEnv 0 D3DDEVTYPE_HAL D3DFMT_X8R8G8B8 D3DFMT_D16) \<and>
   buildPresentParameters rejectingEnv exampleWindow =
     Inr (\<lparr>BackBufferWidth = 800, BackBufferHeight = 600,
           BackBufferFormat = D3DFMT_X8R8G8B8, BackBufferCount = 2,
           MultiSampleType = 0, MultiSampleQuality = 0,
           SwapEffect = D3DSWAPEFFECT_DISCARD, hDeviceWindow = 7,
           Windowed = True, EnableAutoDepthStencil = True,
           AutoDepthStencilFormat = D3DFMT_D16,
           FullScreen_RefreshRateInHz = 0, PresentationInterval = 1\<rparr>,
          [D3D_CheckDeviceFormat 0 D3DDEVTYPE_HAL D3DFMT_X8R8G8B8 D3DFMT_D24S8,
           D3D_CheckDeviceFormat 0 D3DDEVTYPE_HAL D3DFMT_X8R8G8B8 D3DFMT_D32,
           RenderSystem_determineFSAASettings 1 0 [] D3DFMT_X8R8G8B8 False])"
  by (simp add: buildPresentParameters_def presentationInterval_def
      autoDepthStencilFormat_def fsaaSettings_def zeroPresentParameters_def
      rejectingEnv_def exampleEnv_def exampleWindow_def exampleDevice_def
      FAILED_NOTAVAILABLE D3DPRESENT_INTERVAL_ONE_def Let_def)

text \<open>
  C7, amended. A rejection by a capability probe is consumed by the fallback chain and
  never surfaces: with a device attached the negotiation returns parameters whatever the
  probes answer. When both probed formats, \<open>D24S8\<close> and \<open>D32\<close>, are rejected, it selects
  the last format of the chain, \<open>D16\<close>, without probing it and without an error. The
  only failure of the negotiation is the call through a null device pointer.
\<close>

theorem probe_rejection_never_fails_negotiation:
  "(mDevice w = Some d \<longrightarrow>
      (\<exists>pp cs. buildPresentParameters env w = Inr (pp, cs) \<and>
         (16 < mColorDepth w \<and>
          FAILED (CheckDeviceFormat env (getAdapterNumber d) (getDeviceType d)
                    D3DFMT_X8R8G8B8 D3DFMT_D24S8) \<and>
          FAILED (CheckDeviceFormat env (getAdapterNumber d) (getDeviceType d)
                    D3DFMT_X8R8G8B8 D3DFMT_D32)
          \<longrightarrow> AutoDepthStencilFormat pp = D3DFMT_D16) \<and>
         (\<forall>a t bb. D3D_CheckDeviceFormat a t bb D3DFMT_D16 \<notin> set cs))) \<and>
   (buildPresentParameters env w = Inl e \<longrightarrow> e = NullDevice \<and> mDevice w = None)"
proof (cases "mDevice w")
  case None
  then show ?thesis
    using buildPresentParameters_null_device [OF None, of env] by simp
next
  case (Some d')
  obtain pp cs1 cs2 cs3 iv df where
    b: "buildPresentParameters env w = Inr (pp, cs1 @ cs2 @ cs3)" and
    i: "presentationInterval env w (getDeviceType d') = Inr (iv, cs1)" and
    a: "autoDepthStencilFormat env w (getDeviceType d')
          (if mColorDepth w > 16 then D3DFMT_X8R8G8B8 else D3DFMT_R5G6B5) = Inr (df, cs2)" and
    f: "\<forall>c \<in> set cs3. \<not> is_format_probe c" and
    p: "AutoDepthStencilFormat pp = df"
    using buildPresentParameters_bound [OF Some] by blast
  have cs1: "\<forall>c \<in> set cs1. \<not> is_format_probe c"
    using i by (rule presentationInterval_no_probe)
  have probe: "is_format_probe (D3D_CheckDeviceFormat a t bb D3DFMT_D16)" for a t bb
    by simp
  have cs2: "D3D_CheckDeviceFormat a t bb D3DFMT_D16 \<notin> set cs2" for a t bb
    using a autoDepthStencilFormat_low [of w env "getDeviceType d'" D3DFMT_R5G6B5]
      autoDepthStencilFormat_high [OF _ Some, of env "getDeviceType d'" D3DFMT_X8R8G8B8]
    by (cases "16 < mColorDepth w") auto
  have no16: "D3D_CheckDeviceFormat a t bb D3DFMT_D16 \<notin> set (cs1 @ cs2 @ cs3)" for a t bb
    using cs1 f cs2 [of a t bb] probe [of a t bb] by auto
  have df: "16 < mColorDepth w \<and>
          FAILED (CheckDeviceFormat env (getAdapterNumber d') (getDeviceType d')
                    D3DFMT_X8R8G8B8 D3DFMT_D24S8) \<and>
          FAILED (CheckDeviceFormat env (getAdapterNumber d') (getDeviceType d')
                    D3DFMT_X8R8G8B8 D3DFMT_D32)
          \<longrightarrow> df = D3DFMT_D16"
    using a autoDepthStencilFormat_high [OF _ Some, of env "getDeviceType d'" D3DFMT_X8R8G8B8]
    by auto
  show ?thesis
    using b p df no16 Some by auto
qed

theorem probe_rejection_never_fails_negotiation_witness:
  "mDevice fullscreenWindow = Some exampleDevice \<and>
   (16 < mColorDepth fullscreenWindow \<and>
    FAILED (CheckDeviceFormat rejectingEnv 0 D3DDEVTYPE_HAL D3DFMT_X8R8G8B8 D3DFMT_D24S8) \<and>
    FAILED (CheckDeviceFormat rejectingEnv 0 D3DDEVTYPE_HAL D3DFMT_X8R8G8B8 D3DFMT_D32)) \<and>
   (\<exists>pp cs. buildPresentParameters rejectingEnv fullscreenWindow = Inr (pp, cs) \<and>
      AutoDepthStencilFormat pp = D3DFMT_D16 \<and>
      D3D_CheckDeviceFormat 0 D3DDEVTYPE_HAL D3DFMT_X8R8G8B8 D3DFMT_D16 \<notin> set cs)"
proof -
  have d: "mDevice fullscreenWindow = Some exampleDevice"
    by (simp add: fullscreenWindow_def exampleWindow_def)
  have facts: "16 < mColorDepth fullscreenWindow"
    "getAdapterNumber exampleDevice = 0" "getDeviceType exampleDevice = D3DDEVTYPE_HAL"
    "CheckDeviceFormat rejectingEnv a t bb f = D3DERR_NOTAVAILABLE" for a t bb f
    by (simp_all add: fullscreenWindow_def exampleWindow_def exampleDevice_def rejectingEnv_def)
  show ?thesis
    using probe_rejection_never_fails_negotiation
            [where w = fullscreenWindow and d = exampleDevice and env = rejectingEnv] d
    by (simp add: facts FAILED_NOTAVAILABLE) blast
qed

subsection \<open>Presenting and copying\<close>

text \<open>
  Against C8 as stated: on a window as constructed, with no device, \<open>swapBuffers\<close> does not
  fail; it returns having done nothing. And on a window with a device that is not valid,
  \<open>copyToMemory\<close> is not skipped: it makes the device call.
\<close>

theorem swap_without_device_is_skipped_and_invalid_copy_is_made:
  "mDevice unboundWindow = None \<and>
   swapBuffers exampleEnv unboundWindow = Inr (unboundWindow, []) \<and>
   mDevice invalidWindow = Some exampleDevice \<and> \<not> mDeviceValid invalidWindow \<and>
   copyToMemory exampleEnv invalidWindow 0 FB_AUTO =
     Inr (invalidWindow, [Device_copyContentsToMemory exampleDevice 0 FB_AUTO])"
  by (simp add: swapBuffers_def THROW_IF_NOT_CORE_THREAD_def copyToMemory_def
      unboundWindow_def invalidWindow_def D3D9RenderWindow_ctor_def setDevice_def
      exampleEnv_def)

text \<open>
  C8, amended. No presentation operation checks that a device is attached. On the core
  thread, \<open>swapBuffers\<close> consults the validity flag alone: when the flag is false it is
  skipped without a device call and without an error, whether or not a device is
  attached, and when the flag is true it presents through the attached device.
  \<open>copyToMemory\<close> does not consult the flag: with a device attached it always makes the
  device call.
\<close>

theorem presentation_consults_only_validity_flag:
  "(onCoreThread env \<and> \<not> mDeviceValid w \<longrightarrow> swapBuffers env w = Inr (w, [])) \<and>
   (onCoreThread env \<and> mDeviceValid w \<and> mDevice w = Some d \<longrightarrow>
      swapBuffers env w = Inr (w, [Device_present d])) \<and>
   (onCoreThread env \<and> mDevice w = Some d \<longrightarrow>
      copyToMemory env w dst buffer = Inr (w, [Device_copyContentsToMemory d dst buffer]))"
  by (simp add: swapBuffers_def THROW_IF_NOT_CORE_THREAD_def copyToMemory_def)

theorem presentation_consults_only_validity_flag_witness:
  "(onCoreThread exampleEnv \<and> \<not> mDeviceValid invalidWindow \<and>
    mDevice invalidWindow = Some exampleDevice) \<and>
   swapBuffers exampleEnv invalidWindow = Inr (invalidWindow, []) \<and>
   copyToMemory exampleEnv invalidWindow 0 FB_AUTO =
     Inr (invalidWindow, [Device_copyContentsToMemory exampleDevice 0 FB_AUTO]) \<and>
   (mDeviceValid exampleWindow \<and> mDevice exampleWindow = Some exampleDevice) \<and>
   swapBuffers exampleEnv exampleWindow = Inr (exampleWindow, [Device_present exampleDevice])"
proof -
  have hyps: "onCoreThread exampleEnv" "\<not> mDeviceValid invalidWindow"
    "mDevice invalidWindow = Some exampleDevice"
    "mDeviceValid exampleWindow" "mDevice exampleWindow = Some exampleDevice"
    by (simp_all add: exampleEnv_def invalidWindow_def setDevice_def exampleWindow_def)
  show ?thesis
    using presentation_consults_only_validity_flag
            [where env = exampleEnv and w = invalidWindow and d = exampleDevice
               and dst = 0 and buffer = FB_AUTO]
          presentation_consults_only_validity_flag
            [where env = exampleEnv and w = exampleWindow and d = exampleDevice]
          hyps
    by simp
qed

subsection \<open>The end of a switch to windowed mode\<close>

text \<open>
  C5. In windowed mode \<open>_finishSwitchingFullscreen\<close> computes the outer size from the
  desired size, makes the desired size the current size and clears the flag. It places
  the window at \<open>((screenw - winWidth) / 2, (screenh - winHeight) / 2)\<close>, or at \<open>0\<close> on an
  axis where the window is not smaller than the work area, with \<open>screenw\<close> and \<open>screenh\<close>
  the extents of the work area. These are coordinates of the desktop, and the origin of
  the work area is not added to them, unlike in the centring of \<open>initialize_internal\<close>
  (lines 151 and 156): the window is centred within the work area of the monitor only
  when that work area begins at the origin of the desktop.
\<close>

theorem finishSwitchingFullscreen_windowed_placement:
  assumes "\<not> mIsFullScreen w"
    and "adjustWindow env w (mDesiredWidth w) (mDesiredHeight w) (mStyle w) = (winWidth, winHeight)"
    and "work = rcWork (GetMonitorInfo env (MonitorFromWindow env (mHWnd w)))"
  shows "finishSwitchingFullscreen env w =
     Inr (w\<lparr>mWidth := mDesiredWidth w, mHeight := mDesiredHeight w,
            mSwitchingFullscreen := False\<rparr>,
          [SetWindowPos (mHWnd w) HWND_NOTOPMOST
             (if winWidth <s r_right work - r_left work
              then int_div (r_right work - r_left work - winWidth) 2 else 0)
             (if winHeight <s r_bottom work - r_top work
              then int_div (r_bottom work - r_top work - winHeight) 2 else 0)
             winWidth winHeight (SWP_DRAWFRAME OR SWP_FRAMECHANGED OR SWP_NOACTIVATE)])"
  using assms by (simp add: finishSwitchingFullscreen_def Let_def)

text \<open>
  On the second monitor, whose work area spans \<open>x\<close> from 1920 to 3840, the 816 pixels
  wide window is placed at \<open>x = 552\<close>: its right edge, 1368, is left of the work area.
\<close>

theorem finishSwitchingFullscreen_windowed_placement_witness:
  "\<not> mIsFullScreen restoringWindow \<and>
   rcWork (GetMonitorInfo secondMonitorEnv (MonitorFromWindow secondMonitorEnv
     (mHWnd restoringWindow))) = SetRect 1920 0 3840 1040 \<and>
   adjustWindow secondMonitorEnv restoringWindow 800 600 (mStyle restoringWindow) = (816, 639) \<and>
   finishSwitchingFullscreen secondMonitorEnv restoringWindow =
     Inr (restoringWindow\<lparr>mWidth := 800, mHeight := 600, mSwitchingFullscreen := False\<rparr>,
          [SetWindowPos 7 HWND_NOTOPMOST 552 200 816 639 0x30]) \<and>
   (552 :: i32) + 816 \<le> 1920"
proof -
  have windowed: "\<not> mIsFullScreen restoringWindow"
    by (simp add: restoringWindow_def exampleWindow_def)
  have work: "rcWork (GetMonitorInfo secondMonitorEnv (MonitorFromWindow secondMonitorEnv
     (mHWnd restoringWindow))) = SetRect 1920 0 3840 1040"
    by (simp add: secondMonitorEnv_def)
  have desired: "mDesiredWidth restoringWindow = 800" "mDesiredHeight restoringWindow = 600"
    "mHWnd restoringWindow = 7"
    by (simp_all add: restoringWindow_def exampleWindow_def)
  have outer: "adjustWindow secondMonitorEnv restoringWindow 800 600 (mStyle restoringWindow)
      = (816, 639)"
    by (simp add: adjustWindow_def secondMonitorEnv_def exampleEnv_def SetRect_def)
  have centre: "(816 :: i32) <s 1920" "int_div 1104 2 = 552"
    "(639 :: i32) <s 1040" "int_div 401 2 = 200"
    by (simp_all add: word_sless_alt int_div_def signed_divide_int_def)
  have flags: "SWP_DRAWFRAME OR SWP_FRAMECHANGED OR SWP_NOACTIVATE = 0x30"
    by (simp add: SWP_DRAWFRAME_def SWP_FRAMECHANGED_def SWP_NOACTIVATE_def)
  have "finishSwitchingFullscreen secondMonitorEnv restoringWindow =
     Inr (restoringWindow\<lparr>mWidth := 800, mHeight := 600, mSwitchingFullscreen := False\<rparr>,
          [SetWindowPos 7 HWND_NOTOPMOST 552 200 816 639 0x30])"
    using finishSwitchingFullscreen_windowed_placement
            [OF windowed, of secondMonitorEnv 816 639 "SetRect 1920 0 3840 1040"]
          outer work
    by (simp add: desired centre flags SetRect_def)
  then show ?thesis
    using windowed work outer by simp
qed

end
